theory Spec2Isabelle
  imports Main
begin

section \<open>JavaScript strings\<close>

text \<open>
  Strings are lists of characters. \<open>toUpperCase\<close> and \<open>toLowerCase\<close> are modelled on
  the ASCII letters, which is all the provider names of the program use; every other
  character is left as it is.
\<close>

definition toUpperCase :: "string \<Rightarrow> string" where
  "toUpperCase s =
     map (\<lambda>c. case map_of (zip ''abcdefghijklmnopqrstuvwxyz'' ''ABCDEFGHIJKLMNOPQRSTUVWXYZ'') c of
                 Some u \<Rightarrow> u | None \<Rightarrow> c) s"

definition toLowerCase :: "string \<Rightarrow> string" where
  "toLowerCase s =
     map (\<lambda>c. case map_of (zip ''ABCDEFGHIJKLMNOPQRSTUVWXYZ'' ''abcdefghijklmnopqrstuvwxyz'') c of
                 Some u \<Rightarrow> u | None \<Rightarrow> c) s"

text \<open>\<open>s.startsWith(p)\<close> and \<open>s.includes(sub)\<close>.\<close>

fun startsWith :: "string \<Rightarrow> string \<Rightarrow> bool" where
  "startsWith s [] = True"
| "startsWith [] (p # ps) = False"
| "startsWith (c # cs) (p # ps) = (c = p \<and> startsWith cs ps)"

fun js_includes :: "string \<Rightarrow> string \<Rightarrow> bool" where
  "js_includes [] sub = (sub = [])"
| "js_includes (c # cs) sub = (startsWith (c # cs) sub \<or> js_includes cs sub)"

section \<open>Error types (errors.ts)\<close>

datatype CloudService = ComputeService | StorageService | MlService

fun service_name :: "CloudService \<Rightarrow> string" where
  "service_name ComputeService = ''compute''"
| "service_name StorageService = ''storage''"
| "service_name MlService = ''ml''"

text \<open>
  The values the program throws and catches. \<open>Error m\<close> is \<open>new Error(m)\<close>;
  \<open>VendorError n m\<close> is an exception raised inside a vendor SDK, with its \<open>name\<close> and
  \<open>message\<close>; \<open>CloudProviderError m p s orig\<close> carries the fields of the class of that
  name (\<open>message\<close>, \<open>provider\<close>, \<open>service\<close>, \<open>originalError\<close>).
\<close>

datatype js_error =
    Error string
  | VendorError string string
  | CloudProviderError string string CloudService "js_error option"
  | ConfigurationError string
  | ValidationError string

fun error_name :: "js_error \<Rightarrow> string" where
  "error_name (Error m) = ''Error''"
| "error_name (VendorError n m) = n"
| "error_name (CloudProviderError m p s orig) = ''CloudProviderError''"
| "error_name (ConfigurationError m) = ''ConfigurationError''"
| "error_name (ValidationError m) = ''ValidationError''"

fun error_message :: "js_error \<Rightarrow> string" where
  "error_message (Error m) = m"
| "error_message (VendorError n m) = m"
| "error_message (CloudProviderError m p s orig) = m"
| "error_message (ConfigurationError m) = m"
| "error_message (ValidationError m) = m"

text \<open>\<open>error instanceof CloudProviderError\<close>.\<close>

fun instanceof_CloudProviderError :: "js_error \<Rightarrow> bool" where
  "instanceof_CloudProviderError (CloudProviderError m p s orig) = True"
| "instanceof_CloudProviderError e = False"

text \<open>
  The string a template literal \<open>${error}\<close> inserts: \<open>Error.prototype.toString\<close>,
  the name and the message joined by a colon, or the one that is not empty.
\<close>

definition error_toString :: "js_error \<Rightarrow> string" where
  "error_toString e =
     (if error_name e = [] then error_message e
      else if error_message e = [] then error_name e
      else error_name e @ '': '' @ error_message e)"

definition fromError :: "js_error \<Rightarrow> string \<Rightarrow> CloudService \<Rightarrow> js_error" where
  "fromError err prov svc =
     CloudProviderError
       (toUpperCase prov @ '' '' @ service_name svc @ '' error: '' @ error_message err)
       prov svc (Some err)"

section \<open>Asynchronous operations with effects\<close>

text \<open>
  An operation runs on a state \<open>'s\<close> (the calls issued to the vendor so far, the
  factory's fields, the loader's fields) and either throws (\<open>Inl\<close>) or returns
  (\<open>Inr\<close>), with the state it leaves behind.
\<close>

type_synonym ('a, 's) eff = "'s \<Rightarrow> (js_error + 'a) \<times> 's"

definition eff_ret :: "'a \<Rightarrow> ('a, 's) eff" where
  "eff_ret v s = (Inr v, s)"

definition eff_throw :: "js_error \<Rightarrow> ('a, 's) eff" where
  "eff_throw e s = (Inl e, s)"

definition eff_bind :: "('a, 's) eff \<Rightarrow> ('a \<Rightarrow> ('b, 's) eff) \<Rightarrow> ('b, 's) eff" where
  "eff_bind m f s = (case m s of (Inl e, s') \<Rightarrow> (Inl e, s') | (Inr v, s') \<Rightarrow> f v s')"

definition try_catch :: "('a, 's) eff \<Rightarrow> (js_error \<Rightarrow> ('a, 's) eff) \<Rightarrow> ('a, 's) eff" where
  "try_catch m h s = (case m s of (Inl e, s') \<Rightarrow> h e s' | (Inr v, s') \<Rightarrow> (Inr v, s'))"

definition wrapProviderOperation ::
  "('a, 's) eff \<Rightarrow> string \<Rightarrow> CloudService \<Rightarrow> ('a, 's) eff" where
  "wrapProviderOperation operation prov svc =
     try_catch operation
       (\<lambda>err. if instanceof_CloudProviderError err then eff_throw err
              else eff_throw (fromError err prov svc))"

section \<open>Domain types (types.ts)\<close>

text \<open>
  \<open>provider\<close> is declared \<open>'aws' | 'azure'\<close>, but it is a string at run time (from the
  environment, or a cast), and the factory has a branch for any other value.
\<close>

record AwsCredentials =
  accessKeyId :: string
  secretAccessKey :: string

record AzureCredentials =
  tenantId :: string
  clientId :: string
  clientSecret :: string
  subscriptionId :: string
  storageConnectionString :: string

record Credentials =
  region :: string
  aws :: "AwsCredentials option"
  azure :: "AzureCredentials option"

record CloudConfig =
  provider :: string
  credentials :: Credentials

datatype InstanceStatus = running | stopped | terminated

record ComputeInstance =
  id' :: string
  status :: InstanceStatus
  publicIp :: "string option"
  privateIp :: "string option"

record StorageOptions =
  container :: string
  path :: string
  contentType :: "string option"

record MLModelOptions =
  modelId :: string
  version :: "string option"
  runtime :: "string option"

text \<open>
  \<open>x || d\<close> on an optional string: the default replaces an absent and an empty
  string alike.
\<close>

definition or_default :: "string option \<Rightarrow> string \<Rightarrow> string" where
  "or_default x d = (case x of None \<Rightarrow> d | Some v \<Rightarrow> if v = [] then d else v)"

text \<open>Whether an optional string is truthy: present and not empty.\<close>

definition truthy :: "string option \<Rightarrow> bool" where
  "truthy x = (case x of None \<Rightarrow> False | Some v \<Rightarrow> v \<noteq> [])"

section \<open>Provider instances (cloud-provider.interface.ts)\<close>

datatype provider_class = AWSProvider | AzureProvider

text \<open>
  An instance of one of the two provider classes: its class and the \<open>config\<close> field
  that \<open>BaseCloudProvider\<close>'s constructor sets. The SDK clients an instance holds are
  built once from its configuration; the operations below take the behaviour of the SDK
  as a parameter.
\<close>

record provider_instance =
  class_of :: provider_class
  config :: CloudConfig

definition getConfig :: "provider_instance \<Rightarrow> CloudConfig" where
  "getConfig this = config this"

text \<open>
  The constructors of the vendor SDK clients, which the provider constructors call:
  \<open>None\<close> when the clients are built, \<open>Some e\<close> when a client constructor throws \<open>e\<close>.
  AWS: the three clients get the same \<open>{region, credentials}\<close>. Azure: the subscription
  id and the storage connection string of the credential block.
\<close>

record sdk_constructors =
  new_aws_clients :: "string \<Rightarrow> AwsCredentials \<Rightarrow> js_error option"
  new_azure_clients :: "AzureCredentials \<Rightarrow> js_error option"

definition new_AWSProvider :: "sdk_constructors \<Rightarrow> CloudConfig \<Rightarrow> js_error + provider_instance" where
  "new_AWSProvider K cfg =
     (case aws (credentials cfg) of
        None \<Rightarrow> Inl (Error ''AWS credentials not provided'')
      | Some c \<Rightarrow>
          (case new_aws_clients K (region (credentials cfg)) c of
             Some e \<Rightarrow> Inl e
           | None \<Rightarrow> Inr \<lparr>class_of = AWSProvider, config = cfg\<rparr>))"

definition new_AzureProvider :: "sdk_constructors \<Rightarrow> CloudConfig \<Rightarrow> js_error + provider_instance" where
  "new_AzureProvider K cfg =
     (case azure (credentials cfg) of
        None \<Rightarrow> Inl (Error ''Azure credentials not provided'')
      | Some c \<Rightarrow>
          (case new_azure_clients K c of
             Some e \<Rightarrow> Inl e
           | None \<Rightarrow> Inr \<lparr>class_of = AzureProvider, config = cfg\<rparr>))"

section \<open>Provider factory (cloud-provider.factory.ts)\<close>

text \<open>
  Provider instances are objects: \<open>instances\<close> is the store of the instances
  constructed so far, and a reference is an index into it. \<open>currentProvider\<close> is the
  factory's only field, a reference or \<open>undefined\<close>.
\<close>

record factory_state =
  instances :: "provider_instance list"
  currentProvider :: "nat option"

definition deref :: "factory_state \<Rightarrow> nat \<Rightarrow> provider_instance option" where
  "deref w r = (if r < length (instances w) then Some (instances w ! r) else None)"

text \<open>Storing a newly constructed instance in \<open>currentProvider\<close> and returning it.\<close>

definition cache_new :: "js_error + provider_instance \<Rightarrow> (nat, factory_state) eff" where
  "cache_new made w =
     (case made of
        Inl e \<Rightarrow> (Inl e, w)
      | Inr obj \<Rightarrow>
          (Inr (length (instances w)),
           w\<lparr>instances := instances w @ [obj], currentProvider := Some (length (instances w))\<rparr>))"

definition getProvider :: "sdk_constructors \<Rightarrow> CloudConfig \<Rightarrow> (nat, factory_state) eff" where
  "getProvider K cfg w =
     (case currentProvider w of
        Some r \<Rightarrow> (Inr r, w)
      | None \<Rightarrow>
          if provider cfg = ''aws'' then
            (if aws (credentials cfg) = None
             then (Inl (Error ''AWS credentials not provided''), w)
             else cache_new (new_AWSProvider K cfg) w)
          else if provider cfg = ''azure'' then
            (if azure (credentials cfg) = None
             then (Inl (Error ''Azure credentials not provided''), w)
             else cache_new (new_AzureProvider K cfg) w)
          else (Inl (Error (''Unsupported cloud provider: '' @ provider cfg)), w))"

definition clearProvider :: "factory_state \<Rightarrow> factory_state" where
  "clearProvider w = w\<lparr>currentProvider := None\<rparr>"

text \<open>A run of \<open>getProvider\<close> calls, one per configuration, with the results in order.\<close>

fun getProvider_each ::
  "sdk_constructors \<Rightarrow> CloudConfig list \<Rightarrow> factory_state \<Rightarrow> (js_error + nat) list \<times> factory_state" where
  "getProvider_each K [] w = ([], w)"
| "getProvider_each K (cfg # cfgs) w =
     (case getProvider K cfg w of
        (r, w') \<Rightarrow> (case getProvider_each K cfgs w' of (rs, w'') \<Rightarrow> (r # rs, w'')))"

section \<open>Vendor SDK calls\<close>

text \<open>
  The vendor SDKs are outside the program. Every call the program issues to one is
  recorded, in order, in a trace; what the call does is a parameter: given the trace
  so far and the call, the SDK's promise is rejected (\<open>Inl\<close>) or fulfilled (\<open>Inr\<close>)
  with the part of the response that the program reads. A \<open>Buffer\<close> is a string of
  bytes.
\<close>

type_synonym bytes = string

text \<open>
  A value read from a plain object by a string key: a string, a member inherited from
  \<open>Object.prototype\<close> (named by its key), or \<open>undefined\<close>.
\<close>

datatype js_value = Str string | Inherited string | Undefined

datatype sdk_call =
    RunInstancesCommand string string "string option" string
      \<comment> \<open>ImageId, InstanceType, UserData, the value of the tag Name\<close>
  | DescribeInstancesCommand "string list option"
      \<comment> \<open>InstanceIds\<close>
  | TerminateInstancesCommand "string list"
      \<comment> \<open>InstanceIds\<close>
  | PutObjectCommand string string bytes "string option"
      \<comment> \<open>Bucket, Key, Body, ContentType\<close>
  | GetObjectCommand string string
      \<comment> \<open>Bucket, Key\<close>
  | DeleteObjectCommand string string
      \<comment> \<open>Bucket, Key\<close>
  | CreateModelCommand string "(js_value \<times> string option) option"
      \<comment> \<open>ModelName, PrimaryContainer: Image and ModelDataUrl\<close>
  | VmBeginCreateOrUpdate string string string string string "string option"
      \<comment> \<open>resource group, name, location, vmSize, image id, userData\<close>
  | VmInstanceView string string
      \<comment> \<open>resource group, name\<close>
  | VmGet string string
  | VmBeginDelete string string
  | VmList string
  | BlobUpload string string bytes nat "string option"
      \<comment> \<open>container, blob path, data, length, blobContentType\<close>
  | BlobDownload string string nat
      \<comment> \<open>container, blob path, offset\<close>
  | BlobDelete string string
  | BlobGetProperties
  | ModelsCreateOrUpdate string string "string option" string string
      \<comment> \<open>resource group, model id, modelUri, framework, version\<close>
  | ModelsList string
  | OnlineEndpointsBeginCreateOrUpdate string string string "string option"
      \<comment> \<open>resource group, endpoint name, authMode, properties.model\<close>

type_synonym trace = "sdk_call list"

type_synonym 'r sdk_op = "trace \<Rightarrow> sdk_call \<Rightarrow> js_error + 'r"

definition send :: "'r sdk_op \<Rightarrow> sdk_call \<Rightarrow> ('r, trace) eff" where
  "send respond call t = (respond t call, t @ [call])"

text \<open>
  \<open>Promise.all\<close> over operations started one after the other: every operation is
  started (each issues its vendor call when it is started), and the result is the list of
  the values, or a rejection if one is rejected. Which rejection wins depends on the order
  in which the vendor calls settle, which is not part of the model; \<open>first_rejection\<close>
  takes the first one in the order of the array.
\<close>

fun run_all :: "('a, 's) eff list \<Rightarrow> 's \<Rightarrow> (js_error + 'a) list \<times> 's" where
  "run_all [] s = ([], s)"
| "run_all (m # ms) s =
     (case m s of (r, s') \<Rightarrow> (case run_all ms s' of (rs, s'') \<Rightarrow> (r # rs, s'')))"

fun first_rejection :: "(js_error + 'a) list \<Rightarrow> js_error option" where
  "first_rejection [] = None"
| "first_rejection (Inl e # rs) = Some e"
| "first_rejection (Inr v # rs) = first_rejection rs"

fun fulfilled :: "(js_error + 'a) list \<Rightarrow> 'a list" where
  "fulfilled [] = []"
| "fulfilled (Inl e # rs) = fulfilled rs"
| "fulfilled (Inr v # rs) = v # fulfilled rs"

definition promise_all :: "('a, 's) eff list \<Rightarrow> ('a list, 's) eff" where
  "promise_all ms s =
     (case run_all ms s of
        (rs, s') \<Rightarrow>
          (case first_rejection rs of
             Some e \<Rightarrow> (Inl e, s')
           | None \<Rightarrow> (Inr (fulfilled rs), s')))"

text \<open>\<open>xs[0]\<close> and \<open>xs?.[0]\<close>: the first element, or \<open>undefined\<close>.\<close>

definition first_elem :: "'a list \<Rightarrow> 'a option" where
  "first_elem xs = (case xs of [] \<Rightarrow> None | x # _ \<Rightarrow> Some x)"

text \<open>Node's \<open>Buffer.from(s).toString('base64')\<close> is a parameter of the operations that use it.\<close>

record host =
  base64 :: "string \<Rightarrow> string"

text \<open>The options of \<open>createComputeInstance\<close>.\<close>

record CreateInstanceOptions =
  name :: string
  instanceType :: string
  imageId :: string
  userData :: "string option"

definition encoded_userData :: "host \<Rightarrow> string option \<Rightarrow> string option" where
  "encoded_userData H u = (if truthy u then Some (base64 H (or_default u [])) else None)"

text \<open>The result of \<open>healthCheck\<close>; \<open>status'\<close> is its field \<open>status\<close>.\<close>

datatype HealthStatus = healthy | unhealthy

record Services =
  compute :: bool
  storage :: bool
  ml :: bool

record Health =
  status' :: HealthStatus
  services :: Services

text \<open>
  One probe of \<open>healthCheck\<close>: \<open>try { await call; services.flag = true; } catch {}\<close>.
\<close>

definition probe ::
  "('r, trace) eff \<Rightarrow> (Services \<Rightarrow> Services) \<Rightarrow> Services \<Rightarrow> (Services, trace) eff" where
  "probe call set_flag sv =
     try_catch (eff_bind call (\<lambda>_. eff_ret (set_flag sv))) (\<lambda>_. eff_ret sv)"

definition health_of :: "Services \<Rightarrow> Health" where
  "health_of sv =
     \<lparr>status' = (if list_all (\<lambda>s. s) [compute sv, storage sv, ml sv] then healthy else unhealthy),
      services = sv\<rparr>"

section \<open>AWS provider (aws-provider.ts)\<close>

text \<open>
  The operations of the provider, but for \<open>runInference\<close>, which also reads the clock
  and parses JSON and on which no property below depends.

  What the program reads of an EC2 instance descriptor; \<open>State\<close> is the descriptor's
  \<open>State\<close>, if any, with its \<open>Name\<close>, if any.
\<close>

record EC2Instance =
  InstanceId :: "string option"
  State :: "string option option"
  PublicIpAddress :: "string option"
  PrivateIpAddress :: "string option"

text \<open>
  The three clients' \<open>send\<close>, by command. \<open>RunInstances\<close> answers with
  \<open>Instances\<close>; \<open>DescribeInstances\<close> with \<open>Reservations\<close>, each with its \<open>Instances\<close>;
  \<open>GetObject\<close> with \<open>Body\<close>, a stream that \<open>toArray()\<close> drains into chunks or that
  fails; \<open>CreateModel\<close> with \<open>ModelArn\<close>.
\<close>

record aws_sdk =
  ec2_RunInstances :: "EC2Instance list option sdk_op"
  ec2_DescribeInstances :: "EC2Instance list option list option sdk_op"
  ec2_TerminateInstances :: "unit sdk_op"
  s3_PutObject :: "unit sdk_op"
  s3_GetObject :: "(js_error + bytes list) option sdk_op"
  s3_DeleteObject :: "unit sdk_op"
  sagemaker_CreateModel :: "string option sdk_op"

definition mapEC2Status :: "string option \<Rightarrow> InstanceStatus" where
  "mapEC2Status st =
     (if st = Some ''running'' then running
      else if st = Some ''stopped'' then stopped
      else terminated)"

definition mapEC2InstanceToComputeInstance :: "EC2Instance \<Rightarrow> ComputeInstance" where
  "mapEC2InstanceToComputeInstance inst =
     \<lparr>id' = or_default (InstanceId inst) [],
      status = mapEC2Status (case State inst of None \<Rightarrow> None | Some st \<Rightarrow> st),
      publicIp = PublicIpAddress inst,
      privateIp = PrivateIpAddress inst\<rparr>"

definition aws_createComputeInstance ::
  "aws_sdk \<Rightarrow> host \<Rightarrow> CreateInstanceOptions \<Rightarrow> (ComputeInstance, trace) eff" where
  "aws_createComputeInstance V H options =
     try_catch
       (eff_bind
          (send (ec2_RunInstances V)
             (RunInstancesCommand (imageId options) (instanceType options)
                (encoded_userData H (userData options)) (name options)))
          (\<lambda>insts. case insts of
               None \<Rightarrow> eff_throw (Error ''Failed to create EC2 instance'')
             | Some [] \<Rightarrow> eff_throw (Error ''Failed to create EC2 instance'')
             | Some (inst # _) \<Rightarrow> eff_ret (mapEC2InstanceToComputeInstance inst)))
       (\<lambda>err. eff_throw (Error (''Failed to create compute instance: '' @ error_toString err)))"

definition aws_getComputeInstance :: "aws_sdk \<Rightarrow> string \<Rightarrow> (ComputeInstance, trace) eff" where
  "aws_getComputeInstance V instanceId =
     try_catch
       (eff_bind
          (send (ec2_DescribeInstances V) (DescribeInstancesCommand (Some [instanceId])))
          (\<lambda>reservations.
             case (case reservations of
                     None \<Rightarrow> None
                   | Some rs \<Rightarrow>
                       (case first_elem rs of
                          None \<Rightarrow> None
                        | Some None \<Rightarrow> None
                        | Some (Some insts) \<Rightarrow> first_elem insts)) of
               None \<Rightarrow> eff_throw (Error (''Instance '' @ instanceId @ '' not found''))
             | Some inst \<Rightarrow> eff_ret (mapEC2InstanceToComputeInstance inst)))
       (\<lambda>err. eff_throw (Error (''Failed to get compute instance: '' @ error_toString err)))"

definition aws_terminateInstance :: "aws_sdk \<Rightarrow> string \<Rightarrow> (unit, trace) eff" where
  "aws_terminateInstance V instanceId =
     try_catch
       (send (ec2_TerminateInstances V) (TerminateInstancesCommand [instanceId]))
       (\<lambda>err. eff_throw (Error (''Failed to terminate instance: '' @ error_toString err)))"

definition aws_uploadFile :: "aws_sdk \<Rightarrow> StorageOptions \<Rightarrow> bytes \<Rightarrow> (string, trace) eff" where
  "aws_uploadFile V options data =
     try_catch
       (eff_bind
          (send (s3_PutObject V)
             (PutObjectCommand (container options) (path options) data (contentType options)))
          (\<lambda>_. eff_ret (''s3://'' @ container options @ ''/'' @ path options)))
       (\<lambda>err. eff_throw (Error (''Failed to upload file: '' @ error_toString err)))"

definition aws_downloadFile :: "aws_sdk \<Rightarrow> StorageOptions \<Rightarrow> (bytes, trace) eff" where
  "aws_downloadFile V options =
     try_catch
       (eff_bind
          (send (s3_GetObject V) (GetObjectCommand (container options) (path options)))
          (\<lambda>body. case body of
               None \<Rightarrow> eff_throw (Error ''No data received'')
             | Some (Inl e) \<Rightarrow> eff_throw e
             | Some (Inr chunks) \<Rightarrow> eff_ret (concat chunks)))
       (\<lambda>err. eff_throw (Error (''Failed to download file: '' @ error_toString err)))"

definition aws_deleteFile :: "aws_sdk \<Rightarrow> StorageOptions \<Rightarrow> (unit, trace) eff" where
  "aws_deleteFile V options =
     try_catch
       (send (s3_DeleteObject V) (DeleteObjectCommand (container options) (path options)))
       (\<lambda>err. eff_throw (Error (''Failed to delete file: '' @ error_toString err)))"

text \<open>
  \<open>runtimeMap[runtime]\<close> reads a property of an object literal: one of its three own
  keys, or else a member that every object inherits from \<open>Object.prototype\<close>, or else
  \<open>undefined\<close>. \<open>a || b\<close> is \<open>a\<close> unless \<open>a\<close> is \<open>undefined\<close> or the empty string.
\<close>

definition runtimeMap :: "(string \<times> string) list" where
  "runtimeMap =
     [(''pytorch'',
       ''763104351884.dkr.ecr.us-east-1.amazonaws.com/pytorch-inference:1.8.1-cpu-py36-ubuntu18.04''),
      (''tensorflow'',
       ''763104351884.dkr.ecr.us-east-1.amazonaws.com/tensorflow-inference:2.5.1-cpu-py37-ubuntu18.04''),
      (''sklearn'',
       ''683313688378.dkr.ecr.us-east-1.amazonaws.com/sagemaker-scikit-learn:0.23-1-cpu-py3'')]"

definition Object_prototype_keys :: "string list" where
  "Object_prototype_keys =
     [''constructor'', ''__defineGetter__'', ''__defineSetter__'', ''hasOwnProperty'',
      ''__lookupGetter__'', ''__lookupSetter__'', ''isPrototypeOf'', ''propertyIsEnumerable'',
      ''toString'', ''valueOf'', ''__proto__'', ''toLocaleString'']"

definition get_property :: "(string \<times> string) list \<Rightarrow> string \<Rightarrow> js_value" where
  "get_property obj key =
     (case map_of obj key of
        Some v \<Rightarrow> Str v
      | None \<Rightarrow> if key \<in> set Object_prototype_keys then Inherited key else Undefined)"

definition js_or :: "js_value \<Rightarrow> js_value \<Rightarrow> js_value" where
  "js_or a b = (if a = Undefined \<or> a = Str [] then b else a)"

definition getModelImage :: "string \<Rightarrow> js_value" where
  "getModelImage rt = js_or (get_property runtimeMap rt) (get_property runtimeMap ''pytorch'')"

text \<open>A model file \<open>{path, content}\<close> is a pair.\<close>

definition aws_deployModel ::
  "aws_sdk \<Rightarrow> MLModelOptions \<Rightarrow> (string \<times> bytes) list \<Rightarrow> (string, trace) eff" where
  "aws_deployModel V options modelFiles =
     eff_bind
       (promise_all
          (map (\<lambda>file. aws_uploadFile V
                   \<lparr>container = ''model-artifacts'',
                    path = modelId options @ ''/'' @ fst file,
                    contentType = None\<rparr>
                   (snd file))
             modelFiles))
       (\<lambda>modelArtifacts.
          try_catch
            (eff_bind
               (send (sagemaker_CreateModel V)
                  (CreateModelCommand (modelId options)
                     (Some (getModelImage (or_default (runtime options) ''pytorch''),
                            first_elem modelArtifacts))))
               (\<lambda>arn. eff_ret (or_default arn (modelId options))))
            (\<lambda>err. eff_throw (Error (''Failed to deploy model: '' @ error_toString err))))"

definition aws_healthCheck :: "aws_sdk \<Rightarrow> (Health, trace) eff" where
  "aws_healthCheck V =
     eff_bind
       (probe (send (ec2_DescribeInstances V) (DescribeInstancesCommand None))
          (\<lambda>sv. sv\<lparr>compute := True\<rparr>)
          \<lparr>compute = False, storage = False, ml = False\<rparr>)
       (\<lambda>sv1.
     eff_bind
       (probe (send (s3_GetObject V) (GetObjectCommand ''test-bucket'' ''test-file''))
          (\<lambda>sv. sv\<lparr>storage := True\<rparr>) sv1)
       (\<lambda>sv2.
     eff_bind
       (probe (send (sagemaker_CreateModel V) (CreateModelCommand ''test-model'' None))
          (\<lambda>sv. sv\<lparr>ml := True\<rparr>) sv2)
       (\<lambda>sv3. eff_ret (health_of sv3))))"

section \<open>Azure provider (azure-provider.ts)\<close>

text \<open>
  The same operations of the Azure provider, again without \<open>runInference\<close>.

  What the program reads of a virtual machine: its \<open>name\<close> (here \<open>vm_name\<close>) and
  \<open>networkProfile?.networkInterfaces\<close>, a list of references each with an optional
  \<open>id\<close>. Of an instance view it reads \<open>statuses\<close>, a list of statuses each with an
  optional \<open>code\<close>.
\<close>

record VirtualMachine =
  vm_name :: "string option"
  networkProfile :: "string option list option option"

record VirtualMachineInstanceView =
  statuses :: "string option list option"

text \<open>
  The calls on the three clients. \<open>beginCreateOrUpdate\<close> answers with a poller, whose
  \<open>pollUntilDone()\<close> fails or gives the machine; \<open>download\<close> with a body that the
  loop drains into chunks or that fails; \<open>models.createOrUpdate\<close> and the endpoint call
  with the \<open>id\<close> of what they made. \<open>blob_url\<close> is the \<open>url\<close> of a blob client, by
  container and path.
\<close>

record azure_sdk =
  vm_beginCreateOrUpdate :: "(js_error + VirtualMachine) sdk_op"
  vm_instanceView :: "VirtualMachineInstanceView sdk_op"
  vm_get :: "VirtualMachine sdk_op"
  vm_beginDelete :: "unit sdk_op"
  vm_list :: "unit sdk_op"
  blob_upload :: "unit sdk_op"
  blob_download :: "(js_error + bytes list) sdk_op"
  blob_delete :: "unit sdk_op"
  blob_getProperties :: "unit sdk_op"
  blob_url :: "string \<Rightarrow> string \<Rightarrow> string"
  models_createOrUpdate :: "string option sdk_op"
  models_list :: "unit sdk_op"
  onlineEndpoints_beginCreateOrUpdate :: "string option sdk_op"

definition resourceGroup :: string where
  "resourceGroup = ''dsar-resource-group''"

text \<open>The first status whose \<open>code\<close> starts with \<open>PowerState/\<close>.\<close>

definition find_powerState :: "string option list \<Rightarrow> string option option" where
  "find_powerState sts =
     find (\<lambda>s. case s of None \<Rightarrow> False | Some c \<Rightarrow> startsWith c ''PowerState/'') sts"

definition mapAzureVMToComputeInstance ::
  "VirtualMachine \<Rightarrow> VirtualMachineInstanceView option \<Rightarrow> ComputeInstance" where
  "mapAzureVMToComputeInstance vm instanceView =
     \<lparr>id' = or_default (vm_name vm) [],
      status =
        (case (case instanceView of None \<Rightarrow> None | Some v \<Rightarrow> statuses v) of
           None \<Rightarrow> terminated
         | Some sts \<Rightarrow>
             (case find_powerState sts of
                Some (Some c) \<Rightarrow>
                  if js_includes c ''running'' then running
                  else if js_includes c ''stopped'' then stopped
                  else terminated
              | _ \<Rightarrow> terminated)),
      publicIp =
        (case networkProfile vm of
           Some (Some nics) \<Rightarrow> (case first_elem nics of Some i \<Rightarrow> i | None \<Rightarrow> None)
         | _ \<Rightarrow> None),
      privateIp = None\<rparr>"

definition azure_createComputeInstance ::
  "azure_sdk \<Rightarrow> host \<Rightarrow> provider_instance \<Rightarrow> CreateInstanceOptions \<Rightarrow> (ComputeInstance, trace) eff" where
  "azure_createComputeInstance V H this options =
     try_catch
       (eff_bind
          (send (vm_beginCreateOrUpdate V)
             (VmBeginCreateOrUpdate resourceGroup (name options)
                (region (credentials (config this))) (instanceType options) (imageId options)
                (encoded_userData H (userData options))))
          (\<lambda>poller. case poller of
               Inl e \<Rightarrow> eff_throw e
             | Inr result \<Rightarrow>
                 eff_bind (send (vm_instanceView V) (VmInstanceView resourceGroup (name options)))
                   (\<lambda>instanceView.
                      eff_ret (mapAzureVMToComputeInstance result (Some instanceView)))))
       (\<lambda>err. eff_throw (Error (''Failed to create compute instance: '' @ error_toString err)))"

definition azure_getComputeInstance :: "azure_sdk \<Rightarrow> string \<Rightarrow> (ComputeInstance, trace) eff" where
  "azure_getComputeInstance V instanceId =
     try_catch
       (eff_bind (send (vm_get V) (VmGet resourceGroup instanceId)) (\<lambda>vm.
        eff_bind (send (vm_instanceView V) (VmInstanceView resourceGroup instanceId))
          (\<lambda>instanceView. eff_ret (mapAzureVMToComputeInstance vm (Some instanceView)))))
       (\<lambda>err. eff_throw (Error (''Failed to get compute instance: '' @ error_toString err)))"

definition azure_terminateInstance :: "azure_sdk \<Rightarrow> string \<Rightarrow> (unit, trace) eff" where
  "azure_terminateInstance V instanceId =
     try_catch
       (send (vm_beginDelete V) (VmBeginDelete resourceGroup instanceId))
       (\<lambda>err. eff_throw (Error (''Failed to terminate instance: '' @ error_toString err)))"

definition azure_uploadFile :: "azure_sdk \<Rightarrow> StorageOptions \<Rightarrow> bytes \<Rightarrow> (string, trace) eff" where
  "azure_uploadFile V options data =
     try_catch
       (eff_bind
          (send (blob_upload V)
             (BlobUpload (container options) (path options) data (length data)
                (contentType options)))
          (\<lambda>_. eff_ret (blob_url V (container options) (path options))))
       (\<lambda>err. eff_throw (Error (''Failed to upload file: '' @ error_toString err)))"

definition azure_downloadFile :: "azure_sdk \<Rightarrow> StorageOptions \<Rightarrow> (bytes, trace) eff" where
  "azure_downloadFile V options =
     try_catch
       (eff_bind
          (send (blob_download V) (BlobDownload (container options) (path options) 0))
          (\<lambda>body. case body of
               Inl e \<Rightarrow> eff_throw e
             | Inr chunks \<Rightarrow> eff_ret (concat chunks)))
       (\<lambda>err. eff_throw (Error (''Failed to download file: '' @ error_toString err)))"

definition azure_deleteFile :: "azure_sdk \<Rightarrow> StorageOptions \<Rightarrow> (unit, trace) eff" where
  "azure_deleteFile V options =
     try_catch
       (send (blob_delete V) (BlobDelete (container options) (path options)))
       (\<lambda>err. eff_throw (Error (''Failed to delete file: '' @ error_toString err)))"

definition azure_deployModel ::
  "azure_sdk \<Rightarrow> MLModelOptions \<Rightarrow> (string \<times> bytes) list \<Rightarrow> (string, trace) eff" where
  "azure_deployModel V options modelFiles =
     try_catch
       (eff_bind
          (promise_all
             (map (\<lambda>file. azure_uploadFile V
                      \<lparr>container = ''model-artifacts'',
                       path = modelId options @ ''/'' @ fst file,
                       contentType = None\<rparr>
                      (snd file))
                modelFiles))
          (\<lambda>modelArtifacts.
        eff_bind
          (send (models_createOrUpdate V)
             (ModelsCreateOrUpdate resourceGroup (modelId options)
                (first_elem modelArtifacts)
                (or_default (runtime options) ''pytorch'')
                (or_default (version options) ''1.0'')))
          (\<lambda>model_id.
        eff_bind
          (send (onlineEndpoints_beginCreateOrUpdate V)
             (OnlineEndpointsBeginCreateOrUpdate resourceGroup
                (modelId options @ ''-endpoint'') ''key'' model_id))
          (\<lambda>endpoint_id. eff_ret (or_default endpoint_id (modelId options))))))
       (\<lambda>err. eff_throw (Error (''Failed to deploy model: '' @ error_toString err)))"

definition azure_healthCheck :: "azure_sdk \<Rightarrow> (Health, trace) eff" where
  "azure_healthCheck V =
     eff_bind
       (probe (send (vm_list V) (VmList resourceGroup))
          (\<lambda>sv. sv\<lparr>compute := True\<rparr>)
          \<lparr>compute = False, storage = False, ml = False\<rparr>)
       (\<lambda>sv1.
     eff_bind
       (probe (send (blob_getProperties V) BlobGetProperties)
          (\<lambda>sv. sv\<lparr>storage := True\<rparr>) sv1)
       (\<lambda>sv2.
     eff_bind
       (probe (send (models_list V) (ModelsList resourceGroup))
          (\<lambda>sv. sv\<lparr>ml := True\<rparr>) sv2)
       (\<lambda>sv3. eff_ret (health_of sv3))))"

section \<open>Reading a trace\<close>

text \<open>
  The responses to a run of calls issued one after the other from the trace \<open>t\<close>, and
  whether all of them are fulfilled.
\<close>

fun responses :: "'r sdk_op \<Rightarrow> trace \<Rightarrow> sdk_call list \<Rightarrow> (js_error + 'r) list" where
  "responses respond t [] = []"
| "responses respond t (c # cs) = respond t c # responses respond (t @ [c]) cs"

definition all_fulfilled :: "(js_error + 'r) list \<Rightarrow> bool" where
  "all_fulfilled rs = list_all (\<lambda>r. \<not> isl r) rs"

text \<open>Upload calls and model-registration calls, of either vendor.\<close>

fun is_upload :: "sdk_call \<Rightarrow> bool" where
  "is_upload (PutObjectCommand b k d ct) = True"
| "is_upload (BlobUpload c p d n ct) = True"
| "is_upload call = False"

fun is_registration :: "sdk_call \<Rightarrow> bool" where
  "is_registration (CreateModelCommand n pc) = True"
| "is_registration (ModelsCreateOrUpdate rg m uri fw ver) = True"
| "is_registration call = False"

section \<open>Configuration loader (config-loader.ts)\<close>

text \<open>
  \<open>process.env\<close> maps a variable's name to its value, if set. The loader's state is
  its field \<open>config\<close> (here \<open>loaded\<close>, since \<open>config\<close> is the provider's field), and
  \<open>env_reads\<close> keeps the names of the variables read from \<open>process.env\<close>, in order.
\<close>

type_synonym env = "string \<Rightarrow> string option"

record loader_state =
  loaded :: "CloudConfig option"
  env_reads :: "string list"

definition read_env :: "env \<Rightarrow> string \<Rightarrow> (string option, loader_state) eff" where
  "read_env E var s = (Inr (E var), s\<lparr>env_reads := env_reads s @ [var]\<rparr>)"

definition getRequiredEnv :: "env \<Rightarrow> string \<Rightarrow> (string, loader_state) eff" where
  "getRequiredEnv E var =
     eff_bind (read_env E var)
       (\<lambda>v. if or_default v [] = []
            then eff_throw (Error (''Required environment variable '' @ var @ '' is not set''))
            else eff_ret (or_default v []))"

definition aws_credentials_from_env :: "env \<Rightarrow> string \<Rightarrow> (Credentials, loader_state) eff" where
  "aws_credentials_from_env E reg =
     eff_bind (getRequiredEnv E ''AWS_ACCESS_KEY_ID'') (\<lambda>k.
     eff_bind (getRequiredEnv E ''AWS_SECRET_ACCESS_KEY'') (\<lambda>sk.
     eff_ret \<lparr>region = reg,
              aws = Some \<lparr>accessKeyId = k, secretAccessKey = sk\<rparr>,
              azure = None\<rparr>))"

definition azure_credentials_from_env :: "env \<Rightarrow> string \<Rightarrow> (Credentials, loader_state) eff" where
  "azure_credentials_from_env E reg =
     eff_bind (getRequiredEnv E ''AZURE_TENANT_ID'') (\<lambda>t.
     eff_bind (getRequiredEnv E ''AZURE_CLIENT_ID'') (\<lambda>c.
     eff_bind (getRequiredEnv E ''AZURE_CLIENT_SECRET'') (\<lambda>cs.
     eff_bind (getRequiredEnv E ''AZURE_SUBSCRIPTION_ID'') (\<lambda>sub.
     eff_bind (getRequiredEnv E ''AZURE_STORAGE_CONNECTION_STRING'') (\<lambda>conn.
     eff_ret \<lparr>region = reg,
              aws = None,
              azure = Some \<lparr>tenantId = t, clientId = c, clientSecret = cs,
                             subscriptionId = sub, storageConnectionString = conn\<rparr>\<rparr>)))))"

text \<open>The part of \<open>loadConfig\<close> after the cache check: it reads the environment.\<close>

definition load_from_env :: "env \<Rightarrow> string option \<Rightarrow> (CloudConfig, loader_state) eff" where
  "load_from_env E prov =
     eff_bind (if truthy prov then eff_ret (or_default prov [])
               else eff_bind (read_env E ''CLOUD_PROVIDER'') (\<lambda>v. eff_ret (or_default v ''aws'')))
       (\<lambda>p.
     eff_bind (read_env E ''CLOUD_REGION'') (\<lambda>r.
     eff_bind (if toLowerCase p = ''aws''
                 then aws_credentials_from_env E (or_default r ''us-east-1'')
               else if toLowerCase p = ''azure''
                 then azure_credentials_from_env E (or_default r ''us-east-1'')
               else eff_throw (Error (''Unsupported cloud provider: '' @ toLowerCase p)))
       (\<lambda>creds s.
          (Inr \<lparr>provider = toLowerCase p, credentials = creds\<rparr>,
           s\<lparr>loaded := Some \<lparr>provider = toLowerCase p, credentials = creds\<rparr>\<rparr>))))"

definition loadConfig :: "env \<Rightarrow> string option \<Rightarrow> (CloudConfig, loader_state) eff" where
  "loadConfig E prov s =
     (case loaded s of
        Some c \<Rightarrow> if \<not> truthy prov then (Inr c, s) else load_from_env E prov s
      | None \<Rightarrow> load_from_env E prov s)"

text \<open>A run of \<open>loadConfig\<close> calls, each with its environment and its argument.\<close>

fun loadConfig_each ::
  "(env \<times> string option) list \<Rightarrow> loader_state \<Rightarrow> (js_error + CloudConfig) list \<times> loader_state" where
  "loadConfig_each [] s = ([], s)"
| "loadConfig_each ((E, prov) # calls) s =
     (case loadConfig E prov s of
        (r, s') \<Rightarrow> (case loadConfig_each calls s' of (rs, s'') \<Rightarrow> (r # rs, s'')))"

text \<open>An environment given by the list of the variables that are set.\<close>

definition env_of :: "(string \<times> string) list \<Rightarrow> env" where
  "env_of vars = map_of vars"

text \<open>
  An operation of the loader that leaves the cached configuration alone and at most
  appends to the record of the variables read.
\<close>

definition only_reads :: "('a, loader_state) eff \<Rightarrow> bool" where
  "only_reads m = (\<forall>s r s'. m s = (r, s') \<longrightarrow>
      loaded s' = loaded s \<and> (\<exists>ns. env_reads s' = env_reads s @ ns))"

text \<open>
  An operation that throws nothing but plain \<open>Error\<close> values (\<open>new Error(message)\<close>).
\<close>

definition throws_only_Error :: "('a, 's) eff \<Rightarrow> bool" where
  "throws_only_Error m = (\<forall>s e s'. m s = (Inl e, s') \<longrightarrow> (\<exists>msg. e = Error msg))"

section \<open>Configurations and environments of the test suite\<close>

text \<open>
  \<open>testConfig\<close> is the configuration of the repository's test file, \<open>azureConfig\<close>
  the one of the factory's usage example, \<open>jest_env\<close> the environment the test setup
  installs. \<open>accepting_sdk\<close> builds every client.
\<close>

definition testConfig :: CloudConfig where
  "testConfig =
     \<lparr>provider = ''aws'',
      credentials = \<lparr>region = ''us-east-1'',
                     aws = Some \<lparr>accessKeyId = ''test-key'', secretAccessKey = ''test-secret''\<rparr>,
                     azure = None\<rparr>\<rparr>"

definition azureConfig :: CloudConfig where
  "azureConfig =
     \<lparr>provider = ''azure'',
      credentials = \<lparr>region = ''eastus'',
                     aws = None,
                     azure = Some \<lparr>tenantId = ''your-tenant-id'', clientId = ''your-client-id'',
                                    clientSecret = ''your-client-secret'',
                                    subscriptionId = ''your-subscription-id'',
                                    storageConnectionString = ''your-storage-connection-string''\<rparr>\<rparr>\<rparr>"

definition accepting_sdk :: sdk_constructors where
  "accepting_sdk = \<lparr>new_aws_clients = (\<lambda>reg c. None), new_azure_clients = (\<lambda>c. None)\<rparr>"

definition jest_env :: env where
  "jest_env = env_of
     [(''CLOUD_PROVIDER'', ''aws''), (''CLOUD_REGION'', ''us-east-1''),
      (''AWS_ACCESS_KEY_ID'', ''test-key''), (''AWS_SECRET_ACCESS_KEY'', ''test-secret''),
      (''AZURE_TENANT_ID'', ''test-tenant''), (''AZURE_CLIENT_ID'', ''test-client''),
      (''AZURE_CLIENT_SECRET'', ''test-secret''), (''AZURE_SUBSCRIPTION_ID'', ''test-subscription''),
      (''AZURE_STORAGE_CONNECTION_STRING'', ''test-connection-string'')]"

definition jest_azure_config :: CloudConfig where
  "jest_azure_config =
     \<lparr>provider = ''azure'',
      credentials = \<lparr>region = ''us-east-1'',
                     aws = None,
                     azure = Some \<lparr>tenantId = ''test-tenant'', clientId = ''test-client'',
                                    clientSecret = ''test-secret'',
                                    subscriptionId = ''test-subscription'',
                                    storageConnectionString = ''test-connection-string''\<rparr>\<rparr>\<rparr>"

text \<open>
  Vendors for the examples: \<open>rejecting_aws\<close> rejects every call with the same SDK
  exception, \<open>accepting_aws\<close> and \<open>accepting_azure\<close> fulfil every call.
\<close>

definition denied :: js_error where
  "denied = VendorError ''UnauthorizedOperation'' ''You are not authorized to perform this operation.''"

definition rejecting_aws :: aws_sdk where
  "rejecting_aws =
     \<lparr>ec2_RunInstances = (\<lambda>t c. Inl denied),
      ec2_DescribeInstances = (\<lambda>t c. Inl denied),
      ec2_TerminateInstances = (\<lambda>t c. Inl denied),
      s3_PutObject = (\<lambda>t c. Inl denied),
      s3_GetObject = (\<lambda>t c. Inl denied),
      s3_DeleteObject = (\<lambda>t c. Inl denied),
      sagemaker_CreateModel = (\<lambda>t c. Inl denied)\<rparr>"

definition accepting_aws :: aws_sdk where
  "accepting_aws =
     \<lparr>ec2_RunInstances = (\<lambda>t c. Inr None),
      ec2_DescribeInstances = (\<lambda>t c. Inr None),
      ec2_TerminateInstances = (\<lambda>t c. Inr ()),
      s3_PutObject = (\<lambda>t c. Inr ()),
      s3_GetObject = (\<lambda>t c. Inr None),
      s3_DeleteObject = (\<lambda>t c. Inr ()),
      sagemaker_CreateModel = (\<lambda>t c. Inr None)\<rparr>"

definition accepting_azure :: azure_sdk where
  "accepting_azure =
     \<lparr>vm_beginCreateOrUpdate = (\<lambda>t c. Inr (Inr \<lparr>vm_name = None, networkProfile = None\<rparr>)),
      vm_instanceView = (\<lambda>t c. Inr \<lparr>statuses = None\<rparr>),
      vm_get = (\<lambda>t c. Inr \<lparr>vm_name = None, networkProfile = None\<rparr>),
      vm_beginDelete = (\<lambda>t c. Inr ()),
      vm_list = (\<lambda>t c. Inr ()),
      blob_upload = (\<lambda>t c. Inr ()),
      blob_download = (\<lambda>t c. Inr (Inr [])),
      blob_delete = (\<lambda>t c. Inr ()),
      blob_getProperties = (\<lambda>t c. Inr ()),
      blob_url = (\<lambda>c p. ''https://dsar.blob.core.windows.net/'' @ c @ ''/'' @ p),
      models_createOrUpdate = (\<lambda>t c. Inr None),
      models_list = (\<lambda>t c. Inr ()),
      onlineEndpoints_beginCreateOrUpdate = (\<lambda>t c. Inr None)\<rparr>"

text \<open>An Azure vendor whose blob storage rejects every call and whose other calls are fulfilled.\<close>

definition azure_storage_down :: azure_sdk where
  "azure_storage_down =
     accepting_azure
       \<lparr>blob_upload := (\<lambda>t c. Inl denied),
        blob_download := (\<lambda>t c. Inl denied),
        blob_delete := (\<lambda>t c. Inl denied),
        blob_getProperties := (\<lambda>t c. Inl denied)\<rparr>"

text \<open>The model options and the model files of the test suite.\<close>

definition testModelOptions :: MLModelOptions where
  "testModelOptions = \<lparr>modelId = ''test-model'', version = None, runtime = Some ''pytorch''\<rparr>"

definition testModelFiles :: "(string \<times> bytes) list" where
  "testModelFiles = [(''model.pth'', ''mock model data'')]"

definition testInstanceParams :: CreateInstanceOptions where
  "testInstanceParams =
     \<lparr>name = ''test-instance'', instanceType = ''t2.micro'', imageId = ''ami-12345'',
      userData = None\<rparr>"

section \<open>Verified properties\<close>

subsection \<open>Error wrapping\<close>

text \<open>
  C5. When the operation fails, \<open>wrapProviderOperation\<close> throws the operation's own
  error, unchanged, if it is a \<open>CloudProviderError\<close>; otherwise it throws a new
  \<open>CloudProviderError\<close> with the given provider and service, the original error as
  \<open>originalError\<close>, and the message \<open>{PROVIDER} {service} error: {original message}\<close>
  with the provider name in upper case. The state the operation left is kept.
\<close>

theorem wrapProviderOperation_failure:
  assumes "operation s = (Inl err, s')"
  shows "wrapProviderOperation operation prov svc s =
     (Inl (if instanceof_CloudProviderError err then err
           else CloudProviderError
                  (toUpperCase prov @ '' '' @ service_name svc @ '' error: '' @ error_message err)
                  prov svc (Some err)), s')"
  using assms by (simp add: wrapProviderOperation_def try_catch_def eff_throw_def fromError_def)

theorem wrapProviderOperation_failure_witness:
  "wrapProviderOperation (eff_throw (VendorError ''AccessDenied'' ''denied'')) ''aws'' ComputeService (0::nat)
     = (Inl (CloudProviderError ''AWS compute error: denied'' ''aws'' ComputeService
               (Some (VendorError ''AccessDenied'' ''denied''))), 0)
   \<and> wrapProviderOperation
        (eff_throw (CloudProviderError ''AZURE ml error: x'' ''azure'' MlService None))
        ''aws'' StorageService (0::nat)
     = (Inl (CloudProviderError ''AZURE ml error: x'' ''azure'' MlService None), 0)"
  using wrapProviderOperation_failure
          [of "eff_throw (VendorError ''AccessDenied'' ''denied'')" "0::nat"
              "VendorError ''AccessDenied'' ''denied''" 0 "''aws''" ComputeService]
        wrapProviderOperation_failure
          [of "eff_throw (CloudProviderError ''AZURE ml error: x'' ''azure'' MlService None)" "0::nat"
              "CloudProviderError ''AZURE ml error: x'' ''azure'' MlService None" 0
              "''aws''" StorageService]
  by (simp add: eff_throw_def toUpperCase_def)

subsection \<open>Provider factory\<close>

text \<open>
  C4. After a successful \<open>getProvider\<close> call the factory's cache holds the returned
  instance, and every later \<open>getProvider\<close> call, whatever configuration and SDK it is
  given (a different or an invalid one too), returns that same instance and changes
  nothing; so does any run of such calls. \<open>clearProvider\<close> empties the cache.
\<close>

theorem getProvider_cached:
  assumes "getProvider K0 cfg0 w = (Inr p, w')"
  shows "currentProvider w' = Some p
       \<and> getProvider K cfg w' = (Inr p, w')
       \<and> getProvider_each K cfgs w' = (replicate (length cfgs) (Inr p), w')
       \<and> currentProvider (clearProvider w') = None"
proof -
  have c: "currentProvider w' = Some p"
    using assms
    by (auto simp: getProvider_def cache_new_def split: option.splits if_splits sum.splits)
  have one: "\<And>K cfg. getProvider K cfg w' = (Inr p, w')"
    using c by (simp add: getProvider_def)
  have "getProvider_each K cfgs w' = (replicate (length cfgs) (Inr p), w')"
    by (induction cfgs) (simp_all add: one)
  with c one show ?thesis by (simp add: clearProvider_def)
qed

theorem getProvider_cached_witness:
  "getProvider accepting_sdk (testConfig\<lparr>provider := ''invalid''\<rparr>)
      \<lparr>instances = [\<lparr>class_of = AWSProvider, config = testConfig\<rparr>], currentProvider = Some 0\<rparr>
     = (Inr 0, \<lparr>instances = [\<lparr>class_of = AWSProvider, config = testConfig\<rparr>],
                currentProvider = Some 0\<rparr>)
   \<and> getProvider_each accepting_sdk [azureConfig, testConfig\<lparr>provider := ''invalid''\<rparr>]
      \<lparr>instances = [\<lparr>class_of = AWSProvider, config = testConfig\<rparr>], currentProvider = Some 0\<rparr>
     = ([Inr 0, Inr 0], \<lparr>instances = [\<lparr>class_of = AWSProvider, config = testConfig\<rparr>],
                          currentProvider = Some 0\<rparr>)"
proof -
  have first: "getProvider accepting_sdk testConfig \<lparr>instances = [], currentProvider = None\<rparr>
      = (Inr 0, \<lparr>instances = [\<lparr>class_of = AWSProvider, config = testConfig\<rparr>],
                 currentProvider = Some 0\<rparr>)"
    by (simp add: getProvider_def cache_new_def new_AWSProvider_def accepting_sdk_def testConfig_def)
  show ?thesis
    using getProvider_cached [OF first, of accepting_sdk "testConfig\<lparr>provider := ''invalid''\<rparr>"
            "[azureConfig, testConfig\<lparr>provider := ''invalid''\<rparr>]"]
    by simp
qed

text \<open>
  C6. With an empty cache, \<open>getProvider\<close> on a configuration whose provider is neither
  \<open>aws\<close> nor \<open>azure\<close> throws the unsupported-provider error and leaves the state as
  it was: no instance is added to the store and the cache is still empty.
\<close>

theorem getProvider_unsupported:
  assumes "currentProvider w = None" and "provider cfg \<noteq> ''aws''" and "provider cfg \<noteq> ''azure''"
  shows "getProvider K cfg w = (Inl (Error (''Unsupported cloud provider: '' @ provider cfg)), w)
       \<and> instances (snd (getProvider K cfg w)) = instances w
       \<and> currentProvider (snd (getProvider K cfg w)) = None"
  using assms by (simp add: getProvider_def)

theorem getProvider_unsupported_witness:
  "getProvider accepting_sdk (testConfig\<lparr>provider := ''invalid''\<rparr>)
      \<lparr>instances = [], currentProvider = None\<rparr>
     = (Inl (Error ''Unsupported cloud provider: invalid''),
        \<lparr>instances = [], currentProvider = None\<rparr>)"
  using getProvider_unsupported
          [of "\<lparr>instances = [], currentProvider = None\<rparr>" "testConfig\<lparr>provider := ''invalid''\<rparr>"
              accepting_sdk]
  by simp

text \<open>
  C7. For a configuration whose provider is \<open>aws\<close> or \<open>azure\<close>, with the matching
  credential block present and accepted by the SDK's client constructors,
  \<open>clearProvider\<close> followed by \<open>getProvider\<close> returns a newly constructed instance of the
  matching class, which is then the cached one and whose \<open>getConfig()\<close> is the
  configuration of this call; whatever was cached before does not matter.
\<close>

theorem clearProvider_then_getProvider:
  assumes "provider cfg = ''aws'' \<and> aws (credentials cfg) = Some a
             \<and> new_aws_clients K (region (credentials cfg)) a = None \<and> cls = AWSProvider
         \<or> provider cfg = ''azure'' \<and> azure (credentials cfg) = Some z
             \<and> new_azure_clients K z = None \<and> cls = AzureProvider"
  shows "\<exists>r w'. getProvider K cfg (clearProvider w) = (Inr r, w')
           \<and> currentProvider w' = Some r
           \<and> r = length (instances w)
           \<and> deref w' r = Some \<lparr>class_of = cls, config = cfg\<rparr>
           \<and> getConfig (instances w' ! r) = cfg
           \<and> provider (getConfig (instances w' ! r)) = provider cfg"
proof -
  let ?r = "length (instances w)"
  let ?w' = "w\<lparr>instances := instances w @ [\<lparr>class_of = cls, config = cfg\<rparr>],
               currentProvider := Some ?r\<rparr>"
  have g: "getProvider K cfg (clearProvider w) = (Inr ?r, ?w')"
    using assms
    by (elim disjE conjE)
       (simp_all add: getProvider_def clearProvider_def cache_new_def new_AWSProvider_def
          new_AzureProvider_def)
  have c: "currentProvider ?w' = Some ?r"
    by simp
  have d: "deref ?w' ?r = Some \<lparr>class_of = cls, config = cfg\<rparr>"
    by (simp add: deref_def)
  have e: "getConfig (instances ?w' ! ?r) = cfg"
    by (simp add: getConfig_def)
  from g c d e have "getProvider K cfg (clearProvider w) = (Inr ?r, ?w')
           \<and> currentProvider ?w' = Some ?r
           \<and> ?r = length (instances w)
           \<and> deref ?w' ?r = Some \<lparr>class_of = cls, config = cfg\<rparr>
           \<and> getConfig (instances ?w' ! ?r) = cfg
           \<and> provider (getConfig (instances ?w' ! ?r)) = provider cfg"
    by simp
  then show ?thesis by (intro exI)
qed

theorem clearProvider_then_getProvider_witness:
  "\<exists>r w'. getProvider accepting_sdk azureConfig
             (clearProvider \<lparr>instances = [\<lparr>class_of = AWSProvider, config = testConfig\<rparr>],
                             currentProvider = Some 0\<rparr>) = (Inr r, w')
           \<and> currentProvider w' = Some r
           \<and> r = length (instances \<lparr>instances = [\<lparr>class_of = AWSProvider, config = testConfig\<rparr>],
                                     currentProvider = Some 0\<rparr>)
           \<and> deref w' r = Some \<lparr>class_of = AzureProvider, config = azureConfig\<rparr>
           \<and> getConfig (instances w' ! r) = azureConfig
           \<and> provider (getConfig (instances w' ! r)) = provider azureConfig"
proof -
  let ?z = "\<lparr>tenantId = ''your-tenant-id'', clientId = ''your-client-id'',
             clientSecret = ''your-client-secret'', subscriptionId = ''your-subscription-id'',
             storageConnectionString = ''your-storage-connection-string''\<rparr>"
  have h: "provider azureConfig = ''aws'' \<and> aws (credentials azureConfig) = Some \<lparr>accessKeyId = [], secretAccessKey = []\<rparr>
             \<and> new_aws_clients accepting_sdk (region (credentials azureConfig)) \<lparr>accessKeyId = [], secretAccessKey = []\<rparr> = None
             \<and> AzureProvider = AWSProvider
         \<or> provider azureConfig = ''azure'' \<and> azure (credentials azureConfig) = Some ?z
             \<and> new_azure_clients accepting_sdk ?z = None \<and> AzureProvider = AzureProvider"
    by (simp add: azureConfig_def accepting_sdk_def)
  show ?thesis by (rule clearProvider_then_getProvider [OF h])
qed

subsection \<open>Configuration loader\<close>

lemma only_reads_ret: "only_reads (eff_ret v)"
  by (simp add: only_reads_def eff_ret_def)

lemma only_reads_throw: "only_reads (eff_throw e)"
  by (simp add: only_reads_def eff_throw_def)

lemma only_reads_read_env: "only_reads (read_env E n)"
  by (auto simp: only_reads_def read_env_def)

lemma only_reads_bind:
  assumes "only_reads m" and "\<And>v. only_reads (f v)"
  shows "only_reads (eff_bind m f)"
  unfolding only_reads_def
proof (intro allI impI)
  fix s r s'
  assume b: "eff_bind m f s = (r, s')"
  obtain r1 s1 where m: "m s = (r1, s1)" by (cases "m s")
  from assms(1) m have l1: "loaded s1 = loaded s" and "\<exists>ns. env_reads s1 = env_reads s @ ns"
    by (auto simp: only_reads_def)
  then obtain ns1 where e1: "env_reads s1 = env_reads s @ ns1" by blast
  show "loaded s' = loaded s \<and> (\<exists>ns. env_reads s' = env_reads s @ ns)"
  proof (cases r1)
    case (Inl e)
    with b m have "s' = s1" by (simp add: eff_bind_def)
    with l1 e1 show ?thesis by blast
  next
    case (Inr v)
    with b m have "f v s1 = (r, s')" by (simp add: eff_bind_def)
    with assms(2) [of v] have "loaded s' = loaded s1" and "\<exists>ns. env_reads s' = env_reads s1 @ ns"
      by (auto simp: only_reads_def)
    with l1 e1 show ?thesis by auto
  qed
qed

lemma only_reads_getRequiredEnv: "only_reads (getRequiredEnv E n)"
  unfolding getRequiredEnv_def
  by (intro only_reads_bind only_reads_read_env) (simp add: only_reads_ret only_reads_throw)

lemma only_reads_aws: "only_reads (aws_credentials_from_env E reg)"
  unfolding aws_credentials_from_env_def
  by (intro only_reads_bind only_reads_getRequiredEnv only_reads_ret)

lemma only_reads_azure: "only_reads (azure_credentials_from_env E reg)"
  unfolding azure_credentials_from_env_def
  by (intro only_reads_bind only_reads_getRequiredEnv only_reads_ret)

lemma only_reads_credentials:
  "only_reads (if toLowerCase p = ''aws'' then aws_credentials_from_env E reg
               else if toLowerCase p = ''azure'' then azure_credentials_from_env E reg
               else eff_throw (Error (''Unsupported cloud provider: '' @ toLowerCase p)))"
  by (simp add: only_reads_aws only_reads_azure only_reads_throw)

lemma only_reads_provider:
  "only_reads (if truthy prov then eff_ret (or_default prov [])
               else eff_bind (read_env E ''CLOUD_PROVIDER'') (\<lambda>v. eff_ret (or_default v ''aws'')))"
  by (simp add: only_reads_ret only_reads_bind only_reads_read_env)

text \<open>
  Past the cache check, \<open>loadConfig\<close> reads at least one variable, and it replaces the
  cached configuration exactly when it returns one.
\<close>

lemma load_from_env_effect:
  assumes "load_from_env E prov s = (r, s')"
  shows "(\<exists>ns. ns \<noteq> [] \<and> env_reads s' = env_reads s @ ns)
       \<and> (case r of Inr c \<Rightarrow> loaded s' = Some c | Inl e \<Rightarrow> loaded s' = loaded s)"
proof -
  let ?P = "if truthy prov then eff_ret (or_default prov [])
               else eff_bind (read_env E ''CLOUD_PROVIDER'') (\<lambda>v. eff_ret (or_default v ''aws''))"
  obtain r1 s1 where p: "?P s = (r1, s1)" by (cases "?P s")
  from only_reads_provider [of prov E] p
  have l1: "loaded s1 = loaded s" and "\<exists>ns. env_reads s1 = env_reads s @ ns"
    unfolding only_reads_def by blast+
  then obtain ns1 where e1: "env_reads s1 = env_reads s @ ns1" by blast
  have "\<exists>p. r1 = Inr p"
    using p by (auto simp: eff_ret_def eff_bind_def read_env_def split: if_splits)
  then obtain pv where r1: "r1 = Inr pv" by blast
  let ?s2 = "s1\<lparr>env_reads := env_reads s1 @ [''CLOUD_REGION'']\<rparr>"
  let ?reg = "or_default (E ''CLOUD_REGION'') ''us-east-1''"
  let ?C = "if toLowerCase pv = ''aws'' then aws_credentials_from_env E ?reg
               else if toLowerCase pv = ''azure'' then azure_credentials_from_env E ?reg
               else eff_throw (Error (''Unsupported cloud provider: '' @ toLowerCase pv))"
  obtain r3 s3 where c: "?C ?s2 = (r3, s3)" by (cases "?C ?s2")
  from only_reads_credentials [of pv E ?reg] c
  have l3: "loaded s3 = loaded ?s2" and "\<exists>ns. env_reads s3 = env_reads ?s2 @ ns"
    unfolding only_reads_def by blast+
  then obtain ns3 where e3: "env_reads s3 = env_reads ?s2 @ ns3" by blast
  have e: "env_reads s3 = env_reads s @ (ns1 @ ''CLOUD_REGION'' # ns3)"
    using e1 e3 by simp
  have res: "(r, s') = (case r3 of Inl e \<Rightarrow> (Inl e, s3)
                | Inr creds \<Rightarrow> (Inr \<lparr>provider = toLowerCase pv, credentials = creds\<rparr>,
                     s3\<lparr>loaded := Some \<lparr>provider = toLowerCase pv, credentials = creds\<rparr>\<rparr>))"
    using assms p r1 c unfolding load_from_env_def
    by (simp add: eff_bind_def read_env_def split: sum.splits)
  show ?thesis
  proof (cases r3)
    case (Inl e3)
    with res have "r = Inl e3" "s' = s3" by simp_all
    with e l3 l1 show ?thesis by auto
  next
    case (Inr creds)
    with res have "r = Inr \<lparr>provider = toLowerCase pv, credentials = creds\<rparr>"
      "s' = s3\<lparr>loaded := Some \<lparr>provider = toLowerCase pv, credentials = creds\<rparr>\<rparr>" by simp_all
    with e show ?thesis by auto
  qed
qed

lemma loadConfig_success_caches:
  assumes "loadConfig E prov s = (Inr c, s')"
  shows "loaded s' = Some c"
proof (cases "loaded s \<noteq> None \<and> \<not> truthy prov")
  case True
  with assms show ?thesis by (auto simp: loadConfig_def)
next
  case False
  with assms have "load_from_env E prov s = (Inr c, s')"
    by (auto simp: loadConfig_def split: option.splits if_splits)
  from load_from_env_effect [OF this] show ?thesis by simp
qed

text \<open>
  C10. Once a \<open>loadConfig\<close> call has returned a configuration \<open>c\<close>, leaving the state
  \<open>s\<close>: a call with no provider argument (or an empty one), under any environment
  \<open>E\<close>, returns \<open>c\<close> and leaves \<open>s\<close> unchanged, so it reads no environment variable and
  the environment cannot influence it; the same holds along any run of such calls. A
  call with a provider argument reads the environment, and the cached configuration
  becomes the one it returns (it stays \<open>c\<close> when the call throws).
\<close>

theorem loadConfig_cached:
  assumes "loadConfig E0 prov0 s0 = (Inr c, s)"
  shows "loadConfig E None s = (Inr c, s)
       \<and> loadConfig E (Some []) s = (Inr c, s)
       \<and> (list_all (\<lambda>call. \<not> truthy (snd call)) calls \<longrightarrow>
            loadConfig_each calls s = (replicate (length calls) (Inr c), s))
       \<and> (truthy prov \<longrightarrow>
            (\<exists>ns. ns \<noteq> [] \<and> env_reads (snd (loadConfig E prov s)) = env_reads s @ ns)
            \<and> (case fst (loadConfig E prov s) of
                  Inr c' \<Rightarrow> loaded (snd (loadConfig E prov s)) = Some c'
                | Inl e \<Rightarrow> loaded (snd (loadConfig E prov s)) = Some c))"
proof -
  have l: "loaded s = Some c" using assms by (rule loadConfig_success_caches)
  have one: "\<And>E prov. \<not> truthy prov \<Longrightarrow> loadConfig E prov s = (Inr c, s)"
    using l by (simp add: loadConfig_def)
  have a: "loadConfig E None s = (Inr c, s)" by (rule one) (simp add: truthy_def)
  have b: "loadConfig E (Some []) s = (Inr c, s)" by (rule one) (simp add: truthy_def)
  have c: "loadConfig_each calls s = (replicate (length calls) (Inr c), s)"
    if "list_all (\<lambda>call. \<not> truthy (snd call)) calls"
    using that by (induction calls) (auto simp: one)
  have d: "(\<exists>ns. ns \<noteq> [] \<and> env_reads (snd (loadConfig E prov s)) = env_reads s @ ns)
            \<and> (case fst (loadConfig E prov s) of
                  Inr c' \<Rightarrow> loaded (snd (loadConfig E prov s)) = Some c'
                | Inl e \<Rightarrow> loaded (snd (loadConfig E prov s)) = Some c)"
    if "truthy prov"
  proof -
    obtain r s' where rs: "loadConfig E prov s = (r, s')" by (cases "loadConfig E prov s")
    with that l have "load_from_env E prov s = (r, s')" by (simp add: loadConfig_def)
    from load_from_env_effect [OF this] l rs show ?thesis by (auto split: sum.splits)
  qed
  from a b c d show ?thesis by blast
qed

theorem loadConfig_cached_witness:
  "loadConfig (env_of []) None
      \<lparr>loaded = Some testConfig,
       env_reads = [''CLOUD_PROVIDER'', ''CLOUD_REGION'', ''AWS_ACCESS_KEY_ID'', ''AWS_SECRET_ACCESS_KEY'']\<rparr>
     = (Inr testConfig,
        \<lparr>loaded = Some testConfig,
         env_reads = [''CLOUD_PROVIDER'', ''CLOUD_REGION'', ''AWS_ACCESS_KEY_ID'', ''AWS_SECRET_ACCESS_KEY'']\<rparr>)
   \<and> loadConfig_each [(env_of [], None), (env_of [(''CLOUD_PROVIDER'', ''azure'')], Some [])]
      \<lparr>loaded = Some testConfig,
       env_reads = [''CLOUD_PROVIDER'', ''CLOUD_REGION'', ''AWS_ACCESS_KEY_ID'', ''AWS_SECRET_ACCESS_KEY'']\<rparr>
     = ([Inr testConfig, Inr testConfig],
        \<lparr>loaded = Some testConfig,
         env_reads = [''CLOUD_PROVIDER'', ''CLOUD_REGION'', ''AWS_ACCESS_KEY_ID'', ''AWS_SECRET_ACCESS_KEY'']\<rparr>)
   \<and> loaded (snd (loadConfig jest_env (Some ''azure'')
      \<lparr>loaded = Some testConfig,
       env_reads = [''CLOUD_PROVIDER'', ''CLOUD_REGION'', ''AWS_ACCESS_KEY_ID'', ''AWS_SECRET_ACCESS_KEY'']\<rparr>))
     = Some jest_azure_config"
proof -
  have first: "loadConfig jest_env None \<lparr>loaded = None, env_reads = []\<rparr>
      = (Inr testConfig,
         \<lparr>loaded = Some testConfig,
          env_reads = [''CLOUD_PROVIDER'', ''CLOUD_REGION'', ''AWS_ACCESS_KEY_ID'', ''AWS_SECRET_ACCESS_KEY'']\<rparr>)"
    by (simp add: loadConfig_def load_from_env_def truthy_def eff_bind_def eff_ret_def
          eff_throw_def read_env_def env_of_def jest_env_def or_default_def toLowerCase_def
          aws_credentials_from_env_def getRequiredEnv_def testConfig_def)
  have second: "fst (loadConfig jest_env (Some ''azure'')
      \<lparr>loaded = Some testConfig,
       env_reads = [''CLOUD_PROVIDER'', ''CLOUD_REGION'', ''AWS_ACCESS_KEY_ID'', ''AWS_SECRET_ACCESS_KEY'']\<rparr>)
      = Inr jest_azure_config"
    by (simp add: loadConfig_def load_from_env_def truthy_def eff_bind_def eff_ret_def
          eff_throw_def read_env_def env_of_def jest_env_def or_default_def toLowerCase_def
          azure_credentials_from_env_def getRequiredEnv_def jest_azure_config_def)
  let ?s = "\<lparr>loaded = Some testConfig,
       env_reads = [''CLOUD_PROVIDER'', ''CLOUD_REGION'', ''AWS_ACCESS_KEY_ID'', ''AWS_SECRET_ACCESS_KEY'']\<rparr>"
  let ?calls = "[(env_of [], None), (env_of [(''CLOUD_PROVIDER'', ''azure'')], Some [])]"
  note t1 = loadConfig_cached [OF first, where E = "env_of []" and prov = None and calls = ?calls]
  note t2 = loadConfig_cached [OF first, where E = jest_env and prov = "Some ''azure''" and calls = "[]"]
  have a: "loadConfig (env_of []) None ?s = (Inr testConfig, ?s)"
    by (rule t1 [THEN conjunct1])
  have la: "list_all (\<lambda>call. \<not> truthy (snd call)) ?calls"
    by (simp add: truthy_def)
  have "loadConfig_each ?calls ?s = (replicate (length ?calls) (Inr testConfig), ?s)"
    using t1 [THEN conjunct2, THEN conjunct2, THEN conjunct1] la by simp
  then have b: "loadConfig_each ?calls ?s = ([Inr testConfig, Inr testConfig], ?s)"
    by (simp del: loadConfig_each.simps)
  have tr: "truthy (Some ''azure'')"
    by (simp add: truthy_def)
  have "case fst (loadConfig jest_env (Some ''azure'') ?s) of
                  Inr c' \<Rightarrow> loaded (snd (loadConfig jest_env (Some ''azure'') ?s)) = Some c'
                | Inl e \<Rightarrow> loaded (snd (loadConfig jest_env (Some ''azure'') ?s)) = Some testConfig"
    by (rule t2 [THEN conjunct2, THEN conjunct2, THEN conjunct2, THEN mp, OF tr, THEN conjunct2])
  with second have c: "loaded (snd (loadConfig jest_env (Some ''azure'') ?s)) = Some jest_azure_config"
    by simp
  from a b c show ?thesis by (simp del: loadConfig_each.simps)
qed

subsection \<open>Vendor calls of the provider operations\<close>

lemma first_elem_map: "first_elem (map f xs) = map_option f (first_elem xs)"
  by (cases xs) (simp_all add: first_elem_def)

text \<open>A run of uploads, each one vendor call whose rejection is rethrown wrapped.\<close>

lemma run_all_uploads:
  assumes up: "\<And>f t. up f t =
            (case respond t (call f) of Inl e \<Rightarrow> Inl (wrap e) | Inr u \<Rightarrow> Inr (loc f), t @ [call f])"
    and run: "run_all (map up files) t = (rs, t')"
  shows "t' = t @ map call files
       \<and> (first_rejection rs = None) = all_fulfilled (responses respond t (map call files))
       \<and> (first_rejection rs = None \<longrightarrow> fulfilled rs = map loc files)"
  using run
proof (induction files arbitrary: t rs t')
  case Nil
  then show ?case by (auto simp: all_fulfilled_def)
next
  case (Cons f files)
  obtain rs1 t1 where rest: "run_all (map up files) (t @ [call f]) = (rs1, t1)"
    by (cases "run_all (map up files) (t @ [call f])")
  note ih = Cons.IH [OF rest]
  show ?case
  proof (cases "respond t (call f)")
    case (Inl e)
    with Cons.prems rest up [of f t] have "rs = Inl (wrap e) # rs1" "t' = t1" by auto
    with ih Inl show ?thesis by (simp add: all_fulfilled_def)
  next
    case (Inr u)
    with Cons.prems rest up [of f t] have "rs = Inr (loc f) # rs1" "t' = t1" by auto
    with ih Inr show ?thesis by (simp add: all_fulfilled_def)
  qed
qed

lemma promise_all_uploads:
  assumes up: "\<And>f t. up f t =
            (case respond t (call f) of Inl e \<Rightarrow> Inl (wrap e) | Inr u \<Rightarrow> Inr (loc f), t @ [call f])"
  shows "snd (promise_all (map up files) t) = t @ map call files
       \<and> (if all_fulfilled (responses respond t (map call files))
          then fst (promise_all (map up files) t) = Inr (map loc files)
          else isl (fst (promise_all (map up files) t)))"
proof -
  obtain rs t' where run: "run_all (map up files) t = (rs, t')"
    by (cases "run_all (map up files) t")
  from run_all_uploads [where up = up and respond = respond and call = call and wrap = wrap
          and loc = loc, OF up run] run
  show ?thesis by (auto simp: promise_all_def split: option.splits)
qed

lemma aws_uploadFile_eval:
  "aws_uploadFile V \<lparr>container = c, path = p, contentType = ct\<rparr> d t =
     (case s3_PutObject V t (PutObjectCommand c p d ct) of
        Inl e \<Rightarrow> Inl (Error (''Failed to upload file: '' @ error_toString e))
      | Inr u \<Rightarrow> Inr (''s3://'' @ c @ ''/'' @ p),
      t @ [PutObjectCommand c p d ct])"
  by (simp add: aws_uploadFile_def try_catch_def eff_bind_def send_def eff_ret_def eff_throw_def
      split: sum.splits)

lemma azure_uploadFile_eval:
  "azure_uploadFile V \<lparr>container = c, path = p, contentType = ct\<rparr> d t =
     (case blob_upload V t (BlobUpload c p d (length d) ct) of
        Inl e \<Rightarrow> Inl (Error (''Failed to upload file: '' @ error_toString e))
      | Inr u \<Rightarrow> Inr (blob_url V c p),
      t @ [BlobUpload c p d (length d) ct])"
  by (simp add: azure_uploadFile_def try_catch_def eff_bind_def send_def eff_ret_def eff_throw_def
      split: sum.splits)

lemma aws_deployModel_trace:
  "snd (aws_deployModel V options files t) =
     t @ map (\<lambda>file. PutObjectCommand ''model-artifacts'' (modelId options @ ''/'' @ fst file)
                       (snd file) None) files
       @ (if all_fulfilled (responses (s3_PutObject V) t
               (map (\<lambda>file. PutObjectCommand ''model-artifacts''
                               (modelId options @ ''/'' @ fst file) (snd file) None) files))
          then [CreateModelCommand (modelId options)
                  (Some (getModelImage (or_default (runtime options) ''pytorch''),
                         map_option (\<lambda>file. ''s3://model-artifacts/'' @ modelId options @ ''/'' @ fst file)
                           (first_elem files)))]
          else [])"
proof -
  let ?up = "\<lambda>file. aws_uploadFile V
                   \<lparr>container = ''model-artifacts'',
                    path = modelId options @ ''/'' @ fst file,
                    contentType = None\<rparr> (snd file)"
  let ?call = "\<lambda>file. PutObjectCommand ''model-artifacts'' (modelId options @ ''/'' @ fst file)
                       (snd file) None"
  let ?loc = "\<lambda>file. ''s3://model-artifacts/'' @ modelId options @ ''/'' @ fst file"
  have pa: "snd (promise_all (map ?up files) t) = t @ map ?call files
       \<and> (if all_fulfilled (responses (s3_PutObject V) t (map ?call files))
          then fst (promise_all (map ?up files) t) = Inr (map ?loc files)
          else isl (fst (promise_all (map ?up files) t)))"
    by (rule promise_all_uploads
          [where wrap = "\<lambda>e. Error (''Failed to upload file: '' @ error_toString e)"
             and respond = "s3_PutObject V" and call = ?call and loc = ?loc and up = ?up])
       (simp add: aws_uploadFile_eval split: sum.splits)
  obtain r t' where p: "promise_all (map ?up files) t = (r, t')"
    by (cases "promise_all (map ?up files) t")
  show ?thesis
  proof (cases "all_fulfilled (responses (s3_PutObject V) t (map ?call files))")
    case True
    with pa p have "r = Inr (map ?loc files)" "t' = t @ map ?call files" by simp_all
    with p True show ?thesis
      by (simp add: aws_deployModel_def eff_bind_def try_catch_def send_def eff_ret_def
            eff_throw_def first_elem_map split: sum.splits)
  next
    case False
    with pa p have "isl r" "t' = t @ map ?call files" by simp_all
    with p False show ?thesis
      by (auto simp: aws_deployModel_def eff_bind_def isl_def)
  qed
qed

lemma azure_deployModel_trace:
  "snd (azure_deployModel V options files t) =
     t @ map (\<lambda>file. BlobUpload ''model-artifacts'' (modelId options @ ''/'' @ fst file)
                       (snd file) (length (snd file)) None) files
       @ (if all_fulfilled (responses (blob_upload V) t
               (map (\<lambda>file. BlobUpload ''model-artifacts''
                               (modelId options @ ''/'' @ fst file) (snd file)
                               (length (snd file)) None) files))
          then ModelsCreateOrUpdate resourceGroup (modelId options)
                  (map_option (\<lambda>file. blob_url V ''model-artifacts''
                                         (modelId options @ ''/'' @ fst file))
                     (first_elem files))
                  (or_default (runtime options) ''pytorch'')
                  (or_default (version options) ''1.0'')
               # (case models_createOrUpdate V
                         (t @ map (\<lambda>file. BlobUpload ''model-artifacts''
                               (modelId options @ ''/'' @ fst file) (snd file)
                               (length (snd file)) None) files)
                         (ModelsCreateOrUpdate resourceGroup (modelId options)
                            (map_option (\<lambda>file. blob_url V ''model-artifacts''
                                         (modelId options @ ''/'' @ fst file))
                               (first_elem files))
                            (or_default (runtime options) ''pytorch'')
                            (or_default (version options) ''1.0'')) of
                    Inl e \<Rightarrow> []
                  | Inr model_id \<Rightarrow>
                      [OnlineEndpointsBeginCreateOrUpdate resourceGroup
                         (modelId options @ ''-endpoint'') ''key'' model_id])
          else [])"
proof -
  let ?up = "\<lambda>file. azure_uploadFile V
                   \<lparr>container = ''model-artifacts'',
                    path = modelId options @ ''/'' @ fst file,
                    contentType = None\<rparr> (snd file)"
  let ?call = "\<lambda>file. BlobUpload ''model-artifacts'' (modelId options @ ''/'' @ fst file)
                       (snd file) (length (snd file)) None"
  let ?loc = "\<lambda>file. blob_url V ''model-artifacts'' (modelId options @ ''/'' @ fst file)"
  have pa: "snd (promise_all (map ?up files) t) = t @ map ?call files
       \<and> (if all_fulfilled (responses (blob_upload V) t (map ?call files))
          then fst (promise_all (map ?up files) t) = Inr (map ?loc files)
          else isl (fst (promise_all (map ?up files) t)))"
    by (rule promise_all_uploads
          [where wrap = "\<lambda>e. Error (''Failed to upload file: '' @ error_toString e)"
             and respond = "blob_upload V" and call = ?call and loc = ?loc and up = ?up])
       (simp add: azure_uploadFile_eval split: sum.splits)
  obtain r t' where p: "promise_all (map ?up files) t = (r, t')"
    by (cases "promise_all (map ?up files) t")
  show ?thesis
  proof (cases "all_fulfilled (responses (blob_upload V) t (map ?call files))")
    case True
    with pa p have "r = Inr (map ?loc files)" "t' = t @ map ?call files" by simp_all
    with p True show ?thesis
      by (simp add: azure_deployModel_def eff_bind_def try_catch_def send_def eff_ret_def
            eff_throw_def first_elem_map split: sum.splits)
  next
    case False
    with pa p have "isl r" "t' = t @ map ?call files" by simp_all
    with p False show ?thesis
      by (auto simp: azure_deployModel_def eff_bind_def try_catch_def eff_throw_def isl_def)
  qed
qed

lemma filter_upload_aws:
  "filter is_upload (map (\<lambda>file. PutObjectCommand b (k file) (d file) ct) files)
     = map (\<lambda>file. PutObjectCommand b (k file) (d file) ct) files"
  by (induction files) simp_all

lemma filter_upload_azure:
  "filter is_upload (map (\<lambda>file. BlobUpload b (k file) (d file) (n file) ct) files)
     = map (\<lambda>file. BlobUpload b (k file) (d file) (n file) ct) files"
  by (induction files) simp_all

lemma filter_registration_aws:
  "filter is_registration (map (\<lambda>file. PutObjectCommand b (k file) (d file) ct) files) = []"
  by (induction files) simp_all

lemma filter_registration_azure:
  "filter is_registration (map (\<lambda>file. BlobUpload b (k file) (d file) (n file) ct) files) = []"
  by (induction files) simp_all

lemma throws_only_Error_catch:
  "throws_only_Error (try_catch m (\<lambda>err. eff_throw (Error (f err))))"
  by (auto simp: throws_only_Error_def try_catch_def eff_throw_def split: prod.splits sum.splits)

lemma throws_only_Error_bind:
  assumes "throws_only_Error m" and "\<And>v. throws_only_Error (f v)"
  shows "throws_only_Error (eff_bind m f)"
  unfolding throws_only_Error_def
proof (intro allI impI)
  fix s e s'
  assume b: "eff_bind m f s = (Inl e, s')"
  obtain r1 s1 where m: "m s = (r1, s1)" by (cases "m s")
  show "\<exists>msg. e = Error msg"
  proof (cases r1)
    case (Inl e1)
    with b m have "m s = (Inl e, s')" by (simp add: eff_bind_def)
    with assms(1) show ?thesis unfolding throws_only_Error_def by blast
  next
    case (Inr v)
    with b m have "f v s1 = (Inl e, s')" by (simp add: eff_bind_def)
    with assms(2) [of v] show ?thesis unfolding throws_only_Error_def by blast
  qed
qed

lemma first_rejection_run_all:
  assumes "\<And>m. m \<in> set ms \<Longrightarrow> throws_only_Error m"
    and "run_all ms s = (rs, s')" and "first_rejection rs = Some e"
  shows "\<exists>msg. e = Error msg"
  using assms
proof (induction ms arbitrary: s rs s')
  case Nil
  then show ?case by simp
next
  case (Cons m ms)
  obtain r1 s1 where m: "m s = (r1, s1)" by (cases "m s")
  obtain rs2 s2 where rest: "run_all ms s1 = (rs2, s2)" by (cases "run_all ms s1")
  from Cons.prems(2) m rest have rs: "rs = r1 # rs2" by simp
  show ?case
  proof (cases r1)
    case (Inl e1)
    with rs Cons.prems(3) have "e1 = e" by simp
    with Inl m have "m s = (Inl e, s1)" by simp
    moreover have "throws_only_Error m" using Cons.prems(1) by simp
    ultimately show ?thesis unfolding throws_only_Error_def by blast
  next
    case (Inr v)
    with rs Cons.prems(3) have "first_rejection rs2 = Some e" by simp
    with Cons.IH [OF _ rest] Cons.prems(1) show ?thesis by simp
  qed
qed

lemma throws_only_Error_promise_all:
  assumes "\<And>m. m \<in> set ms \<Longrightarrow> throws_only_Error m"
  shows "throws_only_Error (promise_all ms)"
  unfolding throws_only_Error_def
proof (intro allI impI)
  fix s e s'
  assume p: "promise_all ms s = (Inl e, s')"
  obtain rs t where run: "run_all ms s = (rs, t)" by (cases "run_all ms s")
  with p have "first_rejection rs = Some e"
    by (simp add: promise_all_def split: option.splits)
  from first_rejection_run_all [OF assms run this] show "\<exists>msg. e = Error msg" by simp
qed

text \<open>
  Every error that an operation of either provider throws is a plain \<open>Error\<close>: each
  operation rethrows what it catches as \<open>new Error(...)\<close>, and the uploads that
  \<open>deployModel\<close> of the AWS provider awaits outside its own \<open>try\<close> do the same. None
  of them ever throws a \<open>CloudProviderError\<close>.
\<close>

lemma provider_operations_throw_only_Error:
  "throws_only_Error (aws_createComputeInstance A H ci)
   \<and> throws_only_Error (aws_getComputeInstance A i)
   \<and> throws_only_Error (aws_terminateInstance A i)
   \<and> throws_only_Error (aws_uploadFile A so d)
   \<and> throws_only_Error (aws_downloadFile A so)
   \<and> throws_only_Error (aws_deleteFile A so)
   \<and> throws_only_Error (aws_deployModel A mo files)
   \<and> throws_only_Error (azure_createComputeInstance Z H this ci)
   \<and> throws_only_Error (azure_getComputeInstance Z i)
   \<and> throws_only_Error (azure_terminateInstance Z i)
   \<and> throws_only_Error (azure_uploadFile Z so d)
   \<and> throws_only_Error (azure_downloadFile Z so)
   \<and> throws_only_Error (azure_deleteFile Z so)
   \<and> throws_only_Error (azure_deployModel Z mo files)"
proof -
  have up: "\<And>so d. throws_only_Error (aws_uploadFile A so d)"
    unfolding aws_uploadFile_def by (rule throws_only_Error_catch)
  have "throws_only_Error (aws_deployModel A mo files)"
    unfolding aws_deployModel_def
    by (intro throws_only_Error_bind throws_only_Error_promise_all throws_only_Error_catch)
       (auto simp: up)
  then show ?thesis
    unfolding aws_createComputeInstance_def aws_getComputeInstance_def aws_terminateInstance_def
      aws_uploadFile_def aws_downloadFile_def aws_deleteFile_def
      azure_createComputeInstance_def azure_getComputeInstance_def azure_terminateInstance_def
      azure_uploadFile_def azure_downloadFile_def azure_deleteFile_def azure_deployModel_def
    by (simp add: throws_only_Error_catch)
qed

text \<open>When an upload is rejected, \<open>deployModel\<close> throws.\<close>

lemma aws_deployModel_rejected:
  assumes "\<not> all_fulfilled (responses (s3_PutObject V) t
               (map (\<lambda>file. PutObjectCommand ''model-artifacts''
                               (modelId options @ ''/'' @ fst file) (snd file) None) files))"
  shows "\<exists>msg. fst (aws_deployModel V options files t) = Inl (Error msg)"
proof -
  let ?up = "\<lambda>file. aws_uploadFile V
                   \<lparr>container = ''model-artifacts'',
                    path = modelId options @ ''/'' @ fst file,
                    contentType = None\<rparr> (snd file)"
  let ?call = "\<lambda>file. PutObjectCommand ''model-artifacts'' (modelId options @ ''/'' @ fst file)
                       (snd file) None"
  let ?loc = "\<lambda>file. ''s3://model-artifacts/'' @ modelId options @ ''/'' @ fst file"
  have pa: "snd (promise_all (map ?up files) t) = t @ map ?call files
       \<and> (if all_fulfilled (responses (s3_PutObject V) t (map ?call files))
          then fst (promise_all (map ?up files) t) = Inr (map ?loc files)
          else isl (fst (promise_all (map ?up files) t)))"
    by (rule promise_all_uploads
          [where wrap = "\<lambda>e. Error (''Failed to upload file: '' @ error_toString e)"
             and respond = "s3_PutObject V" and call = ?call and loc = ?loc and up = ?up])
       (simp add: aws_uploadFile_eval split: sum.splits)
  obtain r t' where p: "promise_all (map ?up files) t = (r, t')"
    by (cases "promise_all (map ?up files) t")
  with pa assms have "isl r" by simp
  then obtain e where "r = Inl e" by (cases r) simp_all
  with p have d: "aws_deployModel V options files t = (Inl e, t')"
    by (simp add: aws_deployModel_def eff_bind_def)
  have "throws_only_Error (aws_deployModel V options files)"
    using provider_operations_throw_only_Error by blast
  with d have "\<exists>msg. e = Error msg"
    unfolding throws_only_Error_def by blast
  with d show ?thesis by auto
qed

lemma azure_deployModel_rejected:
  assumes "\<not> all_fulfilled (responses (blob_upload V) t
               (map (\<lambda>file. BlobUpload ''model-artifacts''
                               (modelId options @ ''/'' @ fst file) (snd file)
                               (length (snd file)) None) files))"
  shows "\<exists>msg. fst (azure_deployModel V options files t) = Inl (Error msg)"
proof -
  let ?up = "\<lambda>file. azure_uploadFile V
                   \<lparr>container = ''model-artifacts'',
                    path = modelId options @ ''/'' @ fst file,
                    contentType = None\<rparr> (snd file)"
  let ?call = "\<lambda>file. BlobUpload ''model-artifacts'' (modelId options @ ''/'' @ fst file)
                       (snd file) (length (snd file)) None"
  let ?loc = "\<lambda>file. blob_url V ''model-artifacts'' (modelId options @ ''/'' @ fst file)"
  have pa: "snd (promise_all (map ?up files) t) = t @ map ?call files
       \<and> (if all_fulfilled (responses (blob_upload V) t (map ?call files))
          then fst (promise_all (map ?up files) t) = Inr (map ?loc files)
          else isl (fst (promise_all (map ?up files) t)))"
    by (rule promise_all_uploads
          [where wrap = "\<lambda>e. Error (''Failed to upload file: '' @ error_toString e)"
             and respond = "blob_upload V" and call = ?call and loc = ?loc and up = ?up])
       (simp add: azure_uploadFile_eval split: sum.splits)
  obtain r t' where p: "promise_all (map ?up files) t = (r, t')"
    by (cases "promise_all (map ?up files) t")
  with pa assms have "isl r" by simp
  then obtain e where "r = Inl e" by (cases r) simp_all
  with p have "fst (azure_deployModel V options files t)
                 = Inl (Error (''Failed to deploy model: '' @ error_toString e))"
    by (simp add: azure_deployModel_def eff_bind_def try_catch_def eff_throw_def)
  then show ?thesis by blast
qed

subsection \<open>Model deployment\<close>

text \<open>
  C3 (as amended). For every list of model files, \<open>deployModel\<close> of either provider
  issues one upload per file, in the order of the list, to the container
  \<open>model-artifacts\<close> under the key \<open>{modelId}/{path}\<close>, whatever the vendor answers. If
  every upload is fulfilled it then issues exactly one model-registration call, whose
  model-artifact reference is the locator of the first file (\<open>s3://model-artifacts/{key}\<close>
  on AWS, the blob's URL on Azure; absent when the list is empty) and which names no
  other file; if an upload is rejected, it throws and issues no registration call.
\<close>

theorem deployModel_calls:
  "filter is_upload (drop (length t) (snd (aws_deployModel A options files t)))
     = map (\<lambda>file. PutObjectCommand ''model-artifacts'' (modelId options @ ''/'' @ fst file)
                      (snd file) None) files
   \<and> length (filter is_upload (drop (length t) (snd (aws_deployModel A options files t))))
     = length files
   \<and> filter is_registration (drop (length t) (snd (aws_deployModel A options files t)))
     = (if all_fulfilled (responses (s3_PutObject A) t
               (map (\<lambda>file. PutObjectCommand ''model-artifacts''
                               (modelId options @ ''/'' @ fst file) (snd file) None) files))
        then [CreateModelCommand (modelId options)
                (Some (getModelImage (or_default (runtime options) ''pytorch''),
                       map_option (\<lambda>file. ''s3://model-artifacts/'' @ modelId options @ ''/'' @ fst file)
                         (first_elem files)))]
        else [])
   \<and> filter is_upload (drop (length t) (snd (azure_deployModel Z options files t)))
     = map (\<lambda>file. BlobUpload ''model-artifacts'' (modelId options @ ''/'' @ fst file)
                      (snd file) (length (snd file)) None) files
   \<and> length (filter is_upload (drop (length t) (snd (azure_deployModel Z options files t))))
     = length files
   \<and> filter is_registration (drop (length t) (snd (azure_deployModel Z options files t)))
     = (if all_fulfilled (responses (blob_upload Z) t
               (map (\<lambda>file. BlobUpload ''model-artifacts''
                               (modelId options @ ''/'' @ fst file) (snd file)
                               (length (snd file)) None) files))
        then [ModelsCreateOrUpdate resourceGroup (modelId options)
                (map_option (\<lambda>file. blob_url Z ''model-artifacts''
                                       (modelId options @ ''/'' @ fst file))
                   (first_elem files))
                (or_default (runtime options) ''pytorch'')
                (or_default (version options) ''1.0'')]
        else [])
   \<and> (\<not> all_fulfilled (responses (s3_PutObject A) t
               (map (\<lambda>file. PutObjectCommand ''model-artifacts''
                               (modelId options @ ''/'' @ fst file) (snd file) None) files))
        \<longrightarrow> (\<exists>msg. fst (aws_deployModel A options files t) = Inl (Error msg)))
   \<and> (\<not> all_fulfilled (responses (blob_upload Z) t
               (map (\<lambda>file. BlobUpload ''model-artifacts''
                               (modelId options @ ''/'' @ fst file) (snd file)
                               (length (snd file)) None) files))
        \<longrightarrow> (\<exists>msg. fst (azure_deployModel Z options files t) = Inl (Error msg)))"
proof -
  have calls: "filter is_upload (drop (length t) (snd (aws_deployModel A options files t)))
     = map (\<lambda>file. PutObjectCommand ''model-artifacts'' (modelId options @ ''/'' @ fst file)
                      (snd file) None) files
   \<and> length (filter is_upload (drop (length t) (snd (aws_deployModel A options files t))))
     = length files
   \<and> filter is_registration (drop (length t) (snd (aws_deployModel A options files t)))
     = (if all_fulfilled (responses (s3_PutObject A) t
               (map (\<lambda>file. PutObjectCommand ''model-artifacts''
                               (modelId options @ ''/'' @ fst file) (snd file) None) files))
        then [CreateModelCommand (modelId options)
                (Some (getModelImage (or_default (runtime options) ''pytorch''),
                       map_option (\<lambda>file. ''s3://model-artifacts/'' @ modelId options @ ''/'' @ fst file)
                         (first_elem files)))]
        else [])
   \<and> filter is_upload (drop (length t) (snd (azure_deployModel Z options files t)))
     = map (\<lambda>file. BlobUpload ''model-artifacts'' (modelId options @ ''/'' @ fst file)
                      (snd file) (length (snd file)) None) files
   \<and> length (filter is_upload (drop (length t) (snd (azure_deployModel Z options files t))))
     = length files
   \<and> filter is_registration (drop (length t) (snd (azure_deployModel Z options files t)))
     = (if all_fulfilled (responses (blob_upload Z) t
               (map (\<lambda>file. BlobUpload ''model-artifacts''
                               (modelId options @ ''/'' @ fst file) (snd file)
                               (length (snd file)) None) files))
        then [ModelsCreateOrUpdate resourceGroup (modelId options)
                (map_option (\<lambda>file. blob_url Z ''model-artifacts''
                                       (modelId options @ ''/'' @ fst file))
                   (first_elem files))
                (or_default (runtime options) ''pytorch'')
                (or_default (version options) ''1.0'')]
        else [])"
    by (simp add: aws_deployModel_trace azure_deployModel_trace filter_upload_aws
          filter_upload_azure filter_registration_aws filter_registration_azure
          split: sum.splits)
  have ra: "\<not> all_fulfilled (responses (s3_PutObject A) t
               (map (\<lambda>file. PutObjectCommand ''model-artifacts''
                               (modelId options @ ''/'' @ fst file) (snd file) None) files))
        \<longrightarrow> (\<exists>msg. fst (aws_deployModel A options files t) = Inl (Error msg))"
    by (rule impI) (rule aws_deployModel_rejected)
  have rz: "\<not> all_fulfilled (responses (blob_upload Z) t
               (map (\<lambda>file. BlobUpload ''model-artifacts''
                               (modelId options @ ''/'' @ fst file) (snd file)
                               (length (snd file)) None) files))
        \<longrightarrow> (\<exists>msg. fst (azure_deployModel Z options files t) = Inl (Error msg))"
    by (rule impI) (rule azure_deployModel_rejected)
  from calls ra rz show ?thesis
    by (elim conjE, intro conjI) assumption+
qed

theorem deployModel_calls_witness:
  "filter is_upload (snd (aws_deployModel accepting_aws testModelOptions
        [(''model.pth'', ''mock model data''), (''labels.txt'', ''a b'')] []))
     = [PutObjectCommand ''model-artifacts'' ''test-model/model.pth'' ''mock model data'' None,
        PutObjectCommand ''model-artifacts'' ''test-model/labels.txt'' ''a b'' None]
   \<and> filter is_registration (snd (aws_deployModel accepting_aws testModelOptions
        [(''model.pth'', ''mock model data''), (''labels.txt'', ''a b'')] []))
     = [CreateModelCommand ''test-model''
          (Some (getModelImage ''pytorch'', Some ''s3://model-artifacts/test-model/model.pth''))]
   \<and> filter is_registration (snd (azure_deployModel accepting_azure testModelOptions [] []))
     = [ModelsCreateOrUpdate ''dsar-resource-group'' ''test-model'' None ''pytorch'' ''1.0'']
   \<and> (\<exists>msg. fst (aws_deployModel rejecting_aws testModelOptions
                    [(''model.pth'', ''mock model data''), (''labels.txt'', ''a b'')] [])
               = Inl (Error msg))
   \<and> (\<exists>msg. fst (azure_deployModel azure_storage_down testModelOptions
                    [(''model.pth'', ''mock model data''), (''labels.txt'', ''a b'')] [])
               = Inl (Error msg))"
proof -
  let ?files = "[(''model.pth'', ''mock model data''), (''labels.txt'', ''a b'')]"
  have ok: "filter is_upload (snd (aws_deployModel accepting_aws testModelOptions ?files []))
     = [PutObjectCommand ''model-artifacts'' ''test-model/model.pth'' ''mock model data'' None,
        PutObjectCommand ''model-artifacts'' ''test-model/labels.txt'' ''a b'' None]
   \<and> filter is_registration (snd (aws_deployModel accepting_aws testModelOptions ?files []))
     = [CreateModelCommand ''test-model''
          (Some (getModelImage ''pytorch'', Some ''s3://model-artifacts/test-model/model.pth''))]
   \<and> filter is_registration (snd (azure_deployModel accepting_azure testModelOptions [] []))
     = [ModelsCreateOrUpdate ''dsar-resource-group'' ''test-model'' None ''pytorch'' ''1.0'']"
    using deployModel_calls [of "[]" accepting_aws testModelOptions ?files accepting_azure]
          deployModel_calls [of "[]" accepting_aws testModelOptions "[]" accepting_azure]
    by (simp add: accepting_aws_def accepting_azure_def testModelOptions_def all_fulfilled_def
          first_elem_def or_default_def resourceGroup_def)
  note rej = deployModel_calls [of "[]" rejecting_aws testModelOptions ?files azure_storage_down]
  have na: "\<not> all_fulfilled (responses (s3_PutObject rejecting_aws) []
               (map (\<lambda>file. PutObjectCommand ''model-artifacts''
                               (modelId testModelOptions @ ''/'' @ fst file) (snd file) None)
                  ?files))"
    by (simp add: all_fulfilled_def rejecting_aws_def)
  have nz: "\<not> all_fulfilled (responses (blob_upload azure_storage_down) []
               (map (\<lambda>file. BlobUpload ''model-artifacts''
                               (modelId testModelOptions @ ''/'' @ fst file) (snd file)
                               (length (snd file)) None) ?files))"
    by (simp add: all_fulfilled_def azure_storage_down_def)
  have ta: "\<exists>msg. fst (aws_deployModel rejecting_aws testModelOptions ?files []) = Inl (Error msg)"
    by (rule rej [THEN conjunct2, THEN conjunct2, THEN conjunct2, THEN conjunct2, THEN conjunct2,
            THEN conjunct2, THEN conjunct1, THEN mp, OF na])
  have tz: "\<exists>msg. fst (azure_deployModel azure_storage_down testModelOptions ?files [])
                    = Inl (Error msg)"
    by (rule rej [THEN conjunct2, THEN conjunct2, THEN conjunct2, THEN conjunct2, THEN conjunct2,
            THEN conjunct2, THEN conjunct2, THEN mp, OF nz])
  from ok ta tz show ?thesis by (elim conjE, intro conjI) assumption+
qed

text \<open>
  The claim as first stated promises one registration call for every list of files.
  With a vendor that rejects the upload of the test suite's one model file,
  \<open>deployModel\<close> throws after the upload and registers nothing.
\<close>

theorem deployModel_calls_counterexample:
  "aws_deployModel rejecting_aws testModelOptions testModelFiles []
     = (Inl (Error ''Failed to upload file: UnauthorizedOperation: You are not authorized to perform this operation.''),
        [PutObjectCommand ''model-artifacts'' ''test-model/model.pth'' ''mock model data'' None])
   \<and> length (filter is_registration
         (snd (aws_deployModel rejecting_aws testModelOptions testModelFiles []))) = 0
   \<and> length (filter is_registration
         (snd (azure_deployModel azure_storage_down testModelOptions testModelFiles []))) = 0"
  by (simp add: aws_deployModel_def azure_deployModel_def promise_all_def aws_uploadFile_def
        azure_uploadFile_def
        try_catch_def eff_bind_def eff_throw_def eff_ret_def send_def rejecting_aws_def
        azure_storage_down_def accepting_azure_def
        testModelOptions_def testModelFiles_def denied_def error_toString_def)

lemma getModelImage_pytorch:
  "getModelImage ''pytorch'' =
     Str ''763104351884.dkr.ecr.us-east-1.amazonaws.com/pytorch-inference:1.8.1-cpu-py36-ubuntu18.04''"
  by (simp add: getModelImage_def get_property_def js_or_def runtimeMap_def)

lemma getModelImage_unrecognized:
  assumes "map_of runtimeMap rt = None" and "rt \<notin> set Object_prototype_keys"
  shows "getModelImage rt = getModelImage ''pytorch''"
  using assms by (simp add: getModelImage_def get_property_def js_or_def)

lemma getModelImage_inherited:
  "getModelImage ''constructor'' = Inherited ''constructor''"
  by (simp add: getModelImage_def get_property_def js_or_def runtimeMap_def
        Object_prototype_keys_def)

lemma or_default_Some: "or_default (Some v) d = (if v = [] then d else v)"
  by (simp add: or_default_def)

text \<open>
  C9 (as amended). On AWS, a runtime name that is not a key of \<open>runtimeMap\<close> (and
  not the name of a member every object inherits), like an absent or empty one, gives
  the registration call the \<open>pytorch\<close> image, exactly as the runtime \<open>pytorch\<close> does. On
  Azure there is no such table: the framework passed to the registration call is the
  runtime name as given, and \<open>pytorch\<close> only when the name is absent or empty.
\<close>

theorem deployModel_runtime_default:
  assumes "map_of runtimeMap rt = None" and "rt \<notin> set Object_prototype_keys"
  shows "getModelImage (or_default (Some rt) ''pytorch'') = getModelImage ''pytorch''
       \<and> getModelImage (or_default None ''pytorch'') = getModelImage ''pytorch''
       \<and> getModelImage ''pytorch'' =
           Str ''763104351884.dkr.ecr.us-east-1.amazonaws.com/pytorch-inference:1.8.1-cpu-py36-ubuntu18.04''
       \<and> aws_deployModel A (options\<lparr>runtime := Some rt\<rparr>) files t
           = aws_deployModel A (options\<lparr>runtime := Some ''pytorch''\<rparr>) files t
       \<and> aws_deployModel A (options\<lparr>runtime := None\<rparr>) files t
           = aws_deployModel A (options\<lparr>runtime := Some ''pytorch''\<rparr>) files t
       \<and> filter is_registration
            (drop (length t) (snd (aws_deployModel A (options\<lparr>runtime := Some rt\<rparr>) files t)))
           = (if all_fulfilled (responses (s3_PutObject A) t
                   (map (\<lambda>file. PutObjectCommand ''model-artifacts''
                                   (modelId options @ ''/'' @ fst file) (snd file) None) files))
              then [CreateModelCommand (modelId options)
                      (Some (Str ''763104351884.dkr.ecr.us-east-1.amazonaws.com/pytorch-inference:1.8.1-cpu-py36-ubuntu18.04'',
                             map_option (\<lambda>file. ''s3://model-artifacts/'' @ modelId options @ ''/'' @ fst file)
                               (first_elem files)))]
              else [])
       \<and> filter is_registration
            (drop (length t) (snd (azure_deployModel Z (options\<lparr>runtime := rto\<rparr>) files t)))
           = (if all_fulfilled (responses (blob_upload Z) t
                   (map (\<lambda>file. BlobUpload ''model-artifacts''
                                   (modelId options @ ''/'' @ fst file) (snd file)
                                   (length (snd file)) None) files))
              then [ModelsCreateOrUpdate resourceGroup (modelId options)
                      (map_option (\<lambda>file. blob_url Z ''model-artifacts''
                                             (modelId options @ ''/'' @ fst file))
                         (first_elem files))
                      (case rto of None \<Rightarrow> ''pytorch''
                                 | Some r \<Rightarrow> if r = [] then ''pytorch'' else r)
                      (or_default (version options) ''1.0'')]
              else [])"
proof -
  have img: "getModelImage (or_default (Some rt) ''pytorch'') = getModelImage ''pytorch''"
    using assms by (simp add: or_default_Some getModelImage_unrecognized)
  have none: "or_default None ''pytorch'' = ''pytorch''"
    by (simp add: or_default_def)
  have same: "aws_deployModel A (options\<lparr>runtime := Some rt\<rparr>) files t
           = aws_deployModel A (options\<lparr>runtime := Some ''pytorch''\<rparr>) files t"
    using img by (simp add: aws_deployModel_def or_default_Some)
  have same_none: "aws_deployModel A (options\<lparr>runtime := None\<rparr>) files t
           = aws_deployModel A (options\<lparr>runtime := Some ''pytorch''\<rparr>) files t"
    by (simp add: aws_deployModel_def or_default_def)
  have fw: "or_default rto ''pytorch'' =
              (case rto of None \<Rightarrow> ''pytorch'' | Some r \<Rightarrow> if r = [] then ''pytorch'' else r)"
    by (simp add: or_default_def)
  have reg_aws: "filter is_registration
            (drop (length t) (snd (aws_deployModel A (options\<lparr>runtime := Some rt\<rparr>) files t)))
           = (if all_fulfilled (responses (s3_PutObject A) t
                   (map (\<lambda>file. PutObjectCommand ''model-artifacts''
                                   (modelId options @ ''/'' @ fst file) (snd file) None) files))
              then [CreateModelCommand (modelId options)
                      (Some (getModelImage ''pytorch'',
                             map_option (\<lambda>file. ''s3://model-artifacts/'' @ modelId options @ ''/'' @ fst file)
                               (first_elem files)))]
              else [])"
    using img by (simp add: aws_deployModel_trace filter_registration_aws)
  have reg_azure: "filter is_registration
            (drop (length t) (snd (azure_deployModel Z (options\<lparr>runtime := rto\<rparr>) files t)))
           = (if all_fulfilled (responses (blob_upload Z) t
                   (map (\<lambda>file. BlobUpload ''model-artifacts''
                                   (modelId options @ ''/'' @ fst file) (snd file)
                                   (length (snd file)) None) files))
              then [ModelsCreateOrUpdate resourceGroup (modelId options)
                      (map_option (\<lambda>file. blob_url Z ''model-artifacts''
                                             (modelId options @ ''/'' @ fst file))
                         (first_elem files))
                      (or_default rto ''pytorch'')
                      (or_default (version options) ''1.0'')]
              else [])"
    by (simp add: azure_deployModel_trace filter_registration_azure split: sum.splits)
  show ?thesis
    using img none same same_none reg_aws reg_azure
    by (simp only: getModelImage_pytorch fw simp_thms)
qed

theorem deployModel_runtime_default_witness:
  "getModelImage (or_default (Some ''onnx'') ''pytorch'') = getModelImage ''pytorch''
   \<and> aws_deployModel accepting_aws (testModelOptions\<lparr>runtime := Some ''onnx''\<rparr>) testModelFiles []
       = aws_deployModel accepting_aws (testModelOptions\<lparr>runtime := Some ''pytorch''\<rparr>) testModelFiles []"
proof -
  have a: "map_of runtimeMap ''onnx'' = None"
    by (simp add: runtimeMap_def)
  have b: "''onnx'' \<notin> set Object_prototype_keys"
    by (simp add: Object_prototype_keys_def)
  from deployModel_runtime_default [OF a b, of accepting_aws testModelOptions testModelFiles "[]"]
  show ?thesis by blast
qed

text \<open>
  The claim as first stated covers both providers. On Azure the unrecognized runtime
  \<open>onnx\<close> reaches the registration call as the framework, where the runtime \<open>pytorch\<close>
  gives \<open>pytorch\<close>.
\<close>

theorem deployModel_runtime_default_counterexample:
  "filter is_registration
     (snd (azure_deployModel accepting_azure (testModelOptions\<lparr>runtime := Some ''onnx''\<rparr>)
             testModelFiles []))
     = [ModelsCreateOrUpdate ''dsar-resource-group'' ''test-model''
          (Some ''https://dsar.blob.core.windows.net/model-artifacts/test-model/model.pth'')
          ''onnx'' ''1.0'']
   \<and> filter is_registration
     (snd (azure_deployModel accepting_azure (testModelOptions\<lparr>runtime := Some ''pytorch''\<rparr>)
             testModelFiles []))
     = [ModelsCreateOrUpdate ''dsar-resource-group'' ''test-model''
          (Some ''https://dsar.blob.core.windows.net/model-artifacts/test-model/model.pth'')
          ''pytorch'' ''1.0'']
   \<and> filter is_registration
     (snd (azure_deployModel accepting_azure (testModelOptions\<lparr>runtime := Some ''onnx''\<rparr>)
             testModelFiles []))
     \<noteq> filter is_registration
     (snd (azure_deployModel accepting_azure (testModelOptions\<lparr>runtime := Some ''pytorch''\<rparr>)
             testModelFiles []))"
  by (simp add: azure_deployModel_def promise_all_def azure_uploadFile_def
        try_catch_def eff_bind_def eff_throw_def eff_ret_def send_def
        accepting_azure_def testModelOptions_def testModelFiles_def or_default_def
        first_elem_def resourceGroup_def)

subsection \<open>Instance status\<close>

text \<open>
  \<open>startsWith\<close>, \<open>includes\<close> and \<open>find\<close> in terms of the strings and lists themselves.
\<close>

lemma startsWith_iff: "startsWith s p = (\<exists>r. s = p @ r)"
  by (induction s p rule: startsWith.induct) auto

lemma js_includes_iff: "js_includes s sub = (\<exists>a b. s = a @ sub @ b)"
proof (induction s)
  case Nil
  then show ?case by simp
next
  case (Cons c cs)
  have "(\<exists>a b. c # cs = a @ sub @ b) = ((\<exists>b. c # cs = sub @ b) \<or> (\<exists>a b. cs = a @ sub @ b))"
  proof
    assume "\<exists>a b. c # cs = a @ sub @ b"
    then obtain a b where ab: "c # cs = a @ sub @ b" by blast
    show "(\<exists>b. c # cs = sub @ b) \<or> (\<exists>a b. cs = a @ sub @ b)"
    proof (cases a)
      case Nil
      with ab show ?thesis by auto
    next
      case (Cons x a')
      with ab have "cs = a' @ sub @ b" by simp
      then show ?thesis by blast
    qed
  next
    assume "(\<exists>b. c # cs = sub @ b) \<or> (\<exists>a b. cs = a @ sub @ b)"
    then show "\<exists>a b. c # cs = a @ sub @ b"
    proof
      assume "\<exists>b. c # cs = sub @ b"
      then obtain b where "c # cs = [] @ sub @ b" by auto
      then show ?thesis by blast
    next
      assume "\<exists>a b. cs = a @ sub @ b"
      then obtain a b where "c # cs = (c # a) @ sub @ b" by auto
      then show ?thesis by blast
    qed
  qed
  with Cons show ?case by (simp add: startsWith_iff)
qed

lemma find_first_iff:
  "(find P xs = Some x) =
     (\<exists>before after. xs = before @ x # after \<and> P x \<and> (\<forall>y\<in>set before. \<not> P y))"
proof (induction xs)
  case Nil
  then show ?case by simp
next
  case (Cons z zs)
  show ?case
  proof (cases "P z")
    case True
    have "(\<exists>before after. z # zs = before @ x # after \<and> P x \<and> (\<forall>y\<in>set before. \<not> P y))
            = (z = x)"
    proof
      assume "\<exists>before after. z # zs = before @ x # after \<and> P x \<and> (\<forall>y\<in>set before. \<not> P y)"
      then obtain before after where
        e: "z # zs = before @ x # after" and n: "\<forall>y\<in>set before. \<not> P y" by blast
      show "z = x"
      proof (cases before)
        case Nil
        with e show ?thesis by simp
      next
        case (Cons b bs)
        with e have "b = z" by simp
        with Cons n True show ?thesis by simp
      qed
    next
      assume "z = x"
      with True have "z # zs = [] @ x # zs \<and> P x \<and> (\<forall>y\<in>set []. \<not> P y)" by simp
      then show "\<exists>before after. z # zs = before @ x # after \<and> P x \<and> (\<forall>y\<in>set before. \<not> P y)"
        by blast
    qed
    with True show ?thesis by simp
  next
    case False
    have "(\<exists>before after. z # zs = before @ x # after \<and> P x \<and> (\<forall>y\<in>set before. \<not> P y))
            = (\<exists>before after. zs = before @ x # after \<and> P x \<and> (\<forall>y\<in>set before. \<not> P y))"
    proof
      assume "\<exists>before after. z # zs = before @ x # after \<and> P x \<and> (\<forall>y\<in>set before. \<not> P y)"
      then obtain before after where
        e: "z # zs = before @ x # after" and px: "P x" and n: "\<forall>y\<in>set before. \<not> P y" by blast
      show "\<exists>before after. zs = before @ x # after \<and> P x \<and> (\<forall>y\<in>set before. \<not> P y)"
      proof (cases before)
        case Nil
        with e px False show ?thesis by simp
      next
        case (Cons b bs)
        with e n px have "zs = bs @ x # after \<and> P x \<and> (\<forall>y\<in>set bs. \<not> P y)" by simp
        then show ?thesis by blast
      qed
    next
      assume "\<exists>before after. zs = before @ x # after \<and> P x \<and> (\<forall>y\<in>set before. \<not> P y)"
      then obtain before after where
        "zs = before @ x # after" and "P x" and "\<forall>y\<in>set before. \<not> P y" by blast
      with False have "z # zs = (z # before) @ x # after \<and> P x \<and> (\<forall>y\<in>set (z # before). \<not> P y)"
        by simp
      then show "\<exists>before after. z # zs = before @ x # after \<and> P x \<and> (\<forall>y\<in>set before. \<not> P y)"
        by blast
    qed
    with False Cons show ?thesis by simp
  qed
qed

text \<open>The code found by the Azure mapping: the first status code that starts with \<open>PowerState/\<close>.\<close>

lemma find_powerState_iff:
  "(find_powerState sts = Some (Some c)) =
     (\<exists>before after. sts = before @ Some c # after
        \<and> (\<exists>r. c = ''PowerState/'' @ r)
        \<and> (\<forall>s\<in>set before. \<forall>r. s \<noteq> Some (''PowerState/'' @ r)))"
proof -
  have p: "\<And>s. (case s of None \<Rightarrow> False | Some c \<Rightarrow> startsWith c ''PowerState/'')
              = (\<exists>r. s = Some (''PowerState/'' @ r))"
    by (simp add: startsWith_iff split: option.splits)
  show ?thesis
    unfolding find_powerState_def find_first_iff p by auto
qed

lemma find_powerState_not_None: "find_powerState sts \<noteq> Some None"
  by (auto simp: find_powerState_def find_first_iff)

lemma azure_status_by_code:
  "(status (mapAzureVMToComputeInstance vm iv) = running)
       = (\<exists>v sts c. iv = Some v \<and> statuses v = Some sts \<and> find_powerState sts = Some (Some c)
            \<and> js_includes c ''running'')
   \<and> (status (mapAzureVMToComputeInstance vm iv) = stopped)
       = (\<exists>v sts c. iv = Some v \<and> statuses v = Some sts \<and> find_powerState sts = Some (Some c)
            \<and> js_includes c ''stopped'' \<and> \<not> js_includes c ''running'')
   \<and> (status (mapAzureVMToComputeInstance vm iv) = terminated)
       = (\<not> (\<exists>v sts c. iv = Some v \<and> statuses v = Some sts \<and> find_powerState sts = Some (Some c)
            \<and> (js_includes c ''running'' \<or> js_includes c ''stopped'')))"
proof -
  have a: "(status (mapAzureVMToComputeInstance vm iv) = running)
       = (\<exists>v sts c. iv = Some v \<and> statuses v = Some sts \<and> find_powerState sts = Some (Some c)
            \<and> js_includes c ''running'')"
    by (auto simp: mapAzureVMToComputeInstance_def split: option.splits)
  have b: "(status (mapAzureVMToComputeInstance vm iv) = stopped)
       = (\<exists>v sts c. iv = Some v \<and> statuses v = Some sts \<and> find_powerState sts = Some (Some c)
            \<and> js_includes c ''stopped'' \<and> \<not> js_includes c ''running'')"
    by (auto simp: mapAzureVMToComputeInstance_def split: option.splits)
  have c: "(status (mapAzureVMToComputeInstance vm iv) = terminated)
       = (\<not> (\<exists>v sts c. iv = Some v \<and> statuses v = Some sts \<and> find_powerState sts = Some (Some c)
            \<and> (js_includes c ''running'' \<or> js_includes c ''stopped'')))"
    by (auto simp: mapAzureVMToComputeInstance_def split: option.splits)
  from a b c show ?thesis by (simp only: simp_thms)
qed

text \<open>Moving the split of the status list to the front of a description of the first code.\<close>

lemma first_code_cong:
  "(\<exists>v sts c. iv = Some v \<and> statuses v = Some sts
       \<and> (\<exists>before after. sts = before @ Some c # after \<and> Q c \<and> N before) \<and> R c)
   = (\<exists>v before c after. iv = Some v \<and> statuses v = Some (before @ Some c # after)
       \<and> N before \<and> Q c \<and> R c)"
  by blast

text \<open>
  C8 (as amended). The EC2 mapping yields \<open>running\<close> exactly for the vendor state
  \<open>running\<close>, \<open>stopped\<close> exactly for \<open>stopped\<close>, and \<open>terminated\<close> for every other state
  and for an absent one. The Azure mapping takes the first status of the instance view
  whose code starts with \<open>PowerState/\<close>; it yields \<open>running\<close> exactly when that code
  contains the text \<open>running\<close>, \<open>stopped\<close> exactly when it contains \<open>stopped\<close> and not
  \<open>running\<close>, and \<open>terminated\<close> in every other case: when the code contains neither,
  and when the instance view, its statuses or such a status is absent.
\<close>

theorem status_mapping:
  "(mapEC2Status st = running) = (st = Some ''running'')
   \<and> (mapEC2Status st = stopped) = (st = Some ''stopped'')
   \<and> (mapEC2Status st = terminated) = (st \<noteq> Some ''running'' \<and> st \<noteq> Some ''stopped'')
   \<and> status (mapEC2InstanceToComputeInstance inst)
       = mapEC2Status (case State inst of None \<Rightarrow> None | Some n \<Rightarrow> n)
   \<and> (status (mapAzureVMToComputeInstance vm iv) = running)
       = (\<exists>v before c after.
            iv = Some v \<and> statuses v = Some (before @ Some c # after)
            \<and> (\<forall>s\<in>set before. \<forall>r. s \<noteq> Some (''PowerState/'' @ r))
            \<and> (\<exists>r. c = ''PowerState/'' @ r)
            \<and> (\<exists>a b. c = a @ ''running'' @ b))
   \<and> (status (mapAzureVMToComputeInstance vm iv) = stopped)
       = (\<exists>v before c after.
            iv = Some v \<and> statuses v = Some (before @ Some c # after)
            \<and> (\<forall>s\<in>set before. \<forall>r. s \<noteq> Some (''PowerState/'' @ r))
            \<and> (\<exists>r. c = ''PowerState/'' @ r)
            \<and> (\<exists>a b. c = a @ ''stopped'' @ b)
            \<and> \<not> (\<exists>a b. c = a @ ''running'' @ b))
   \<and> (status (mapAzureVMToComputeInstance vm iv) = terminated)
       = (\<not> (\<exists>v before c after.
            iv = Some v \<and> statuses v = Some (before @ Some c # after)
            \<and> (\<forall>s\<in>set before. \<forall>r. s \<noteq> Some (''PowerState/'' @ r))
            \<and> (\<exists>r. c = ''PowerState/'' @ r)
            \<and> ((\<exists>a b. c = a @ ''running'' @ b) \<or> (\<exists>a b. c = a @ ''stopped'' @ b))))"
proof -
  have aws: "(mapEC2Status st = running) = (st = Some ''running'')
   \<and> (mapEC2Status st = stopped) = (st = Some ''stopped'')
   \<and> (mapEC2Status st = terminated) = (st \<noteq> Some ''running'' \<and> st \<noteq> Some ''stopped'')"
    by (simp add: mapEC2Status_def)
  have inst: "status (mapEC2InstanceToComputeInstance inst)
       = mapEC2Status (case State inst of None \<Rightarrow> None | Some n \<Rightarrow> n)"
    by (simp add: mapEC2InstanceToComputeInstance_def)
  note code = azure_status_by_code [of vm iv]
  have r: "(status (mapAzureVMToComputeInstance vm iv) = running)
       = (\<exists>v before c after.
            iv = Some v \<and> statuses v = Some (before @ Some c # after)
            \<and> (\<forall>s\<in>set before. \<forall>r. s \<noteq> Some (''PowerState/'' @ r))
            \<and> (\<exists>r. c = ''PowerState/'' @ r)
            \<and> (\<exists>a b. c = a @ ''running'' @ b))"
    unfolding code [THEN conjunct1] find_powerState_iff js_includes_iff
    by (rule first_code_cong)
  have s: "(status (mapAzureVMToComputeInstance vm iv) = stopped)
       = (\<exists>v before c after.
            iv = Some v \<and> statuses v = Some (before @ Some c # after)
            \<and> (\<forall>s\<in>set before. \<forall>r. s \<noteq> Some (''PowerState/'' @ r))
            \<and> (\<exists>r. c = ''PowerState/'' @ r)
            \<and> (\<exists>a b. c = a @ ''stopped'' @ b)
            \<and> \<not> (\<exists>a b. c = a @ ''running'' @ b))"
    unfolding code [THEN conjunct2, THEN conjunct1] find_powerState_iff js_includes_iff
    by (rule first_code_cong)
  have t: "(status (mapAzureVMToComputeInstance vm iv) = terminated)
       = (\<not> (\<exists>v before c after.
            iv = Some v \<and> statuses v = Some (before @ Some c # after)
            \<and> (\<forall>s\<in>set before. \<forall>r. s \<noteq> Some (''PowerState/'' @ r))
            \<and> (\<exists>r. c = ''PowerState/'' @ r)
            \<and> ((\<exists>a b. c = a @ ''running'' @ b) \<or> (\<exists>a b. c = a @ ''stopped'' @ b))))"
    unfolding code [THEN conjunct2, THEN conjunct2] find_powerState_iff js_includes_iff
    by (rule arg_cong [where f = Not], rule first_code_cong)
  from aws inst r s t show ?thesis by (simp only: simp_thms)
qed

theorem status_mapping_witness:
  "mapEC2Status (Some ''pending'') = terminated
   \<and> mapEC2Status None = terminated
   \<and> mapEC2Status (Some ''running'') = running
   \<and> mapEC2Status (Some ''stopped'') = stopped
   \<and> status (mapAzureVMToComputeInstance \<lparr>vm_name = Some ''vm1'', networkProfile = None\<rparr>
        (Some \<lparr>statuses = Some [Some ''ProvisioningState/succeeded'', Some ''PowerState/running'']\<rparr>))
       = running
   \<and> status (mapAzureVMToComputeInstance \<lparr>vm_name = Some ''vm1'', networkProfile = None\<rparr>
        (Some \<lparr>statuses = Some [None, Some ''PowerState/stopped'']\<rparr>))
       = stopped
   \<and> status (mapAzureVMToComputeInstance \<lparr>vm_name = Some ''vm1'', networkProfile = None\<rparr> None)
       = terminated"
proof -
  let ?vm = "\<lparr>vm_name = Some ''vm1'', networkProfile = None\<rparr>"
  let ?run = "\<lparr>statuses = Some [Some ''ProvisioningState/succeeded'', Some ''PowerState/running'']\<rparr>"
  let ?stop = "\<lparr>statuses = Some [None, Some ''PowerState/stopped'']\<rparr>"
  have aws: "mapEC2Status (Some ''pending'') = terminated \<and> mapEC2Status None = terminated
     \<and> mapEC2Status (Some ''running'') = running \<and> mapEC2Status (Some ''stopped'') = stopped"
    using status_mapping [where st = "Some ''pending''"] status_mapping [where st = None]
      status_mapping [where st = "Some ''running''"] status_mapping [where st = "Some ''stopped''"]
    by simp
  have r1: "''PowerState/running'' = ''PowerState/'' @ ''running''" by simp
  have r2: "''PowerState/running'' = ''PowerState/'' @ ''running'' @ []" by simp
  have r3: "\<forall>s\<in>set [Some ''ProvisioningState/succeeded'']. \<forall>r. s \<noteq> Some (''PowerState/'' @ r)"
    by simp
  have "\<exists>v before c after.
            Some ?run = Some v \<and> statuses v = Some (before @ Some c # after)
            \<and> (\<forall>s\<in>set before. \<forall>r. s \<noteq> Some (''PowerState/'' @ r))
            \<and> (\<exists>r. c = ''PowerState/'' @ r)
            \<and> (\<exists>a b. c = a @ ''running'' @ b)"
    apply (rule exI [where x = ?run])
    apply (rule exI [where x = "[Some ''ProvisioningState/succeeded'']"])
    apply (rule exI [where x = "''PowerState/running''"])
    apply (rule exI [where x = "[]"])
    apply (intro conjI)
        apply simp
       apply simp
      apply (rule r3)
     apply (rule exI [where x = "''running''"], rule r1)
    apply (rule exI [where x = "''PowerState/''"], rule exI [where x = "[]"], rule r2)
    done
  then have run: "status (mapAzureVMToComputeInstance ?vm (Some ?run)) = running"
    by (rule iffD2 [OF status_mapping [where vm = ?vm and iv = "Some ?run",
          THEN conjunct2, THEN conjunct2, THEN conjunct2, THEN conjunct2, THEN conjunct1]])
  have s1: "''PowerState/stopped'' = ''PowerState/'' @ ''stopped''" by simp
  have s2: "''PowerState/stopped'' = ''PowerState/'' @ ''stopped'' @ []" by simp
  have s3: "\<forall>s\<in>set [None]. \<forall>r. s \<noteq> Some (''PowerState/'' @ r)"
    by simp
  have s4: "\<not> (\<exists>a b. ''PowerState/stopped'' = a @ ''running'' @ b)"
    unfolding js_includes_iff [symmetric] by simp
  have "\<exists>v before c after.
            Some ?stop = Some v \<and> statuses v = Some (before @ Some c # after)
            \<and> (\<forall>s\<in>set before. \<forall>r. s \<noteq> Some (''PowerState/'' @ r))
            \<and> (\<exists>r. c = ''PowerState/'' @ r)
            \<and> (\<exists>a b. c = a @ ''stopped'' @ b)
            \<and> \<not> (\<exists>a b. c = a @ ''running'' @ b)"
    apply (rule exI [where x = ?stop])
    apply (rule exI [where x = "[None]"])
    apply (rule exI [where x = "''PowerState/stopped''"])
    apply (rule exI [where x = "[]"])
    apply (intro conjI)
         apply simp
        apply simp
       apply (rule s3)
      apply (rule exI [where x = "''stopped''"], rule s1)
     apply (rule exI [where x = "''PowerState/''"], rule exI [where x = "[]"], rule s2)
    apply (rule s4)
    done
  then have stop: "status (mapAzureVMToComputeInstance ?vm (Some ?stop)) = stopped"
    by (rule iffD2 [OF status_mapping [where vm = ?vm and iv = "Some ?stop",
          THEN conjunct2, THEN conjunct2, THEN conjunct2, THEN conjunct2, THEN conjunct2,
          THEN conjunct1]])
  have "\<not> (\<exists>v before c after.
            (None :: VirtualMachineInstanceView option) = Some v
            \<and> statuses v = Some (before @ Some c # after)
            \<and> (\<forall>s\<in>set before. \<forall>r. s \<noteq> Some (''PowerState/'' @ r))
            \<and> (\<exists>r. c = ''PowerState/'' @ r)
            \<and> ((\<exists>a b. c = a @ ''running'' @ b) \<or> (\<exists>a b. c = a @ ''stopped'' @ b)))"
    by simp
  then have none: "status (mapAzureVMToComputeInstance ?vm None) = terminated"
    by (rule iffD2 [OF status_mapping [where vm = ?vm and iv = None,
          THEN conjunct2, THEN conjunct2, THEN conjunct2, THEN conjunct2, THEN conjunct2,
          THEN conjunct2]])
  from aws run stop none show ?thesis by (simp only: simp_thms)
qed

text \<open>
  The claim as first stated has every unrecognized vendor status value map to
  \<open>terminated\<close>. The Azure mapping matches by \<open>includes\<close>: the codes
  \<open>PowerState/not-running\<close> and \<open>PowerState/unstopped\<close>, which are not the vendor's
  running and stopped states, map to \<open>running\<close> and to \<open>stopped\<close>.
\<close>

theorem status_mapping_counterexample:
  "status (mapAzureVMToComputeInstance \<lparr>vm_name = Some ''vm1'', networkProfile = None\<rparr>
        (Some \<lparr>statuses = Some [Some ''PowerState/not-running'']\<rparr>))
       = running
   \<and> status (mapAzureVMToComputeInstance \<lparr>vm_name = Some ''vm1'', networkProfile = None\<rparr>
        (Some \<lparr>statuses = Some [Some ''PowerState/unstopped'']\<rparr>))
       = stopped
   \<and> status (mapAzureVMToComputeInstance \<lparr>vm_name = Some ''vm1'', networkProfile = None\<rparr>
        (Some \<lparr>statuses = Some [Some ''PowerState/not-running'']\<rparr>))
       \<noteq> terminated"
  by (simp add: mapAzureVMToComputeInstance_def find_powerState_def)

subsection \<open>Health check\<close>

lemma probe_send:
  "probe (send respond call) set_flag sv t =
     (Inr (if isl (respond t call) then sv else set_flag sv), t @ [call])"
  by (cases "respond t call")
     (simp_all add: probe_def try_catch_def eff_bind_def eff_ret_def send_def)

lemma Health_eq: "services h = s \<Longrightarrow> status' h = u \<Longrightarrow> (h::Health) = \<lparr>status' = u, services = s\<rparr>"
  by simp

text \<open>
  C2. For every vendor behaviour, \<open>healthCheck\<close> of either provider returns and never
  throws; it issues its three probes in order whichever of them fail; each flag of
  \<open>services\<close> is true exactly when its own probe was fulfilled; and \<open>status\<close> is
  \<open>healthy\<close> exactly when the three flags are true, \<open>unhealthy\<close> otherwise.
\<close>

theorem healthCheck_never_throws:
  "(\<exists>h. aws_healthCheck A t =
          (Inr h, t @ [DescribeInstancesCommand None, GetObjectCommand ''test-bucket'' ''test-file'',
                       CreateModelCommand ''test-model'' None])
        \<and> services h =
             \<lparr>compute = \<not> isl (ec2_DescribeInstances A t (DescribeInstancesCommand None)),
              storage = \<not> isl (s3_GetObject A (t @ [DescribeInstancesCommand None])
                             (GetObjectCommand ''test-bucket'' ''test-file'')),
              ml = \<not> isl (sagemaker_CreateModel A
                        (t @ [DescribeInstancesCommand None,
                              GetObjectCommand ''test-bucket'' ''test-file''])
                        (CreateModelCommand ''test-model'' None))\<rparr>
        \<and> (status' h = healthy) = (compute (services h) \<and> storage (services h) \<and> ml (services h))
        \<and> (status' h = unhealthy) = (\<not> (compute (services h) \<and> storage (services h) \<and> ml (services h))))
   \<and> (\<exists>h. azure_healthCheck Z t =
          (Inr h, t @ [VmList resourceGroup, BlobGetProperties, ModelsList resourceGroup])
        \<and> services h =
             \<lparr>compute = \<not> isl (vm_list Z t (VmList resourceGroup)),
              storage = \<not> isl (blob_getProperties Z (t @ [VmList resourceGroup]) BlobGetProperties),
              ml = \<not> isl (models_list Z (t @ [VmList resourceGroup, BlobGetProperties])
                        (ModelsList resourceGroup))\<rparr>
        \<and> (status' h = healthy) = (compute (services h) \<and> storage (services h) \<and> ml (services h))
        \<and> (status' h = unhealthy) = (\<not> (compute (services h) \<and> storage (services h) \<and> ml (services h))))"
  by (simp add: aws_healthCheck_def azure_healthCheck_def eff_bind_def probe_send eff_ret_def
        health_of_def)

theorem healthCheck_never_throws_witness:
  "aws_healthCheck
      (accepting_aws\<lparr>sagemaker_CreateModel := (\<lambda>t c. Inl denied)\<rparr>) []
     = (Inr \<lparr>status' = unhealthy, services = \<lparr>compute = True, storage = True, ml = False\<rparr>\<rparr>,
        [DescribeInstancesCommand None, GetObjectCommand ''test-bucket'' ''test-file'',
         CreateModelCommand ''test-model'' None])
   \<and> azure_healthCheck accepting_azure []
     = (Inr \<lparr>status' = healthy, services = \<lparr>compute = True, storage = True, ml = True\<rparr>\<rparr>,
        [VmList resourceGroup, BlobGetProperties, ModelsList resourceGroup])"
proof -
  let ?A = "accepting_aws\<lparr>sagemaker_CreateModel := (\<lambda>t c. Inl denied)\<rparr>"
  note t = healthCheck_never_throws [of ?A "[]" accepting_azure]
  from t [THEN conjunct1] obtain h where
    h1: "aws_healthCheck ?A [] =
           (Inr h, [] @ [DescribeInstancesCommand None, GetObjectCommand ''test-bucket'' ''test-file'',
                         CreateModelCommand ''test-model'' None])"
    and h2: "services h =
             \<lparr>compute = \<not> isl (ec2_DescribeInstances ?A [] (DescribeInstancesCommand None)),
              storage = \<not> isl (s3_GetObject ?A ([] @ [DescribeInstancesCommand None])
                             (GetObjectCommand ''test-bucket'' ''test-file'')),
              ml = \<not> isl (sagemaker_CreateModel ?A
                        ([] @ [DescribeInstancesCommand None,
                              GetObjectCommand ''test-bucket'' ''test-file''])
                        (CreateModelCommand ''test-model'' None))\<rparr>"
    and h3: "(status' h = unhealthy) = (\<not> (compute (services h) \<and> storage (services h) \<and> ml (services h)))"
    by (elim exE conjE)
  have s: "services h = \<lparr>compute = True, storage = True, ml = False\<rparr>"
    using h2 by (simp add: accepting_aws_def)
  have u: "status' h = unhealthy"
    using h3 s by simp
  have a: "aws_healthCheck ?A [] =
     (Inr \<lparr>status' = unhealthy, services = \<lparr>compute = True, storage = True, ml = False\<rparr>\<rparr>,
        [DescribeInstancesCommand None, GetObjectCommand ''test-bucket'' ''test-file'',
         CreateModelCommand ''test-model'' None])"
    using h1 Health_eq [OF s u] by simp
  from t [THEN conjunct2] obtain k where
    k1: "azure_healthCheck accepting_azure [] =
           (Inr k, [] @ [VmList resourceGroup, BlobGetProperties, ModelsList resourceGroup])"
    and k2: "services k =
             \<lparr>compute = \<not> isl (vm_list accepting_azure [] (VmList resourceGroup)),
              storage = \<not> isl (blob_getProperties accepting_azure ([] @ [VmList resourceGroup]) BlobGetProperties),
              ml = \<not> isl (models_list accepting_azure ([] @ [VmList resourceGroup, BlobGetProperties])
                        (ModelsList resourceGroup))\<rparr>"
    and k3: "(status' k = healthy) = (compute (services k) \<and> storage (services k) \<and> ml (services k))"
    by (elim exE conjE)
  have ks: "services k = \<lparr>compute = True, storage = True, ml = True\<rparr>"
    using k2 by (simp add: accepting_azure_def)
  have ku: "status' k = healthy"
    using k3 ks by simp
  have b: "azure_healthCheck accepting_azure [] =
     (Inr \<lparr>status' = healthy, services = \<lparr>compute = True, storage = True, ml = True\<rparr>\<rparr>,
        [VmList resourceGroup, BlobGetProperties, ModelsList resourceGroup])"
    using k1 Health_eq [OF ks ku] by simp
  from a b show ?thesis by (rule conjI)
qed

subsection \<open>Errors of the provider operations\<close>

text \<open>
  C1. The claim asks for a \<open>CloudProviderError\<close> naming the service whenever a vendor
  call fails, as the repository's tests and README do. The operations do not produce
  one. When EC2 rejects \<open>RunInstances\<close> for the instance of the test suite,
  \<open>createComputeInstance\<close> of the AWS provider throws a plain \<open>Error\<close> with the message
  \<open>Failed to create compute instance: ...\<close>, which is not a \<open>CloudProviderError\<close> and
  has no \<open>service\<close>; the same vendor call run under \<open>wrapProviderOperation\<close> would give
  the error the claim describes. \<open>downloadFile\<close> of the Azure provider does the same
  when the blob download is rejected.
\<close>

theorem createComputeInstance_vendor_failure:
  "aws_createComputeInstance rejecting_aws H testInstanceParams []
     = (Inl (Error ''Failed to create compute instance: UnauthorizedOperation: You are not authorized to perform this operation.''),
        [RunInstancesCommand ''ami-12345'' ''t2.micro'' None ''test-instance''])
   \<and> \<not> instanceof_CloudProviderError
         (Error ''Failed to create compute instance: UnauthorizedOperation: You are not authorized to perform this operation.'')
   \<and> wrapProviderOperation
         (send (ec2_RunInstances rejecting_aws)
            (RunInstancesCommand ''ami-12345'' ''t2.micro'' None ''test-instance''))
         ''aws'' ComputeService []
     = (Inl (CloudProviderError
               ''AWS compute error: You are not authorized to perform this operation.''
               ''aws'' ComputeService (Some denied)),
        [RunInstancesCommand ''ami-12345'' ''t2.micro'' None ''test-instance''])
   \<and> azure_downloadFile azure_storage_down
         \<lparr>container = ''test-bucket'', path = ''test-file.txt'', contentType = Some ''text/plain''\<rparr> []
     = (Inl (Error ''Failed to download file: UnauthorizedOperation: You are not authorized to perform this operation.''),
        [BlobDownload ''test-bucket'' ''test-file.txt'' 0])"
  by (simp add: aws_createComputeInstance_def azure_downloadFile_def try_catch_def eff_bind_def
        eff_throw_def eff_ret_def send_def rejecting_aws_def azure_storage_down_def
        accepting_azure_def testInstanceParams_def denied_def error_toString_def
        encoded_userData_def truthy_def wrapProviderOperation_def fromError_def toUpperCase_def)

end
